theory Spec2Isabelle
  imports Main "HOL-Library.Word" "HOL-Library.AList" "HOL-Library.Sublist"
begin

section \<open>Python strings\<close>

text \<open>
  A Python \<open>str\<close> is modelled as a \<open>string\<close>: a list of code points below 256
  (the Latin-1 range, which holds everything \<open>wpa_cli\<close> and the GATT byte arrays produce).
\<close>

definition NL :: char where
  "NL = CHR 0x0A"

definition isspace :: "char \<Rightarrow> bool" where
  \<comment> \<open>\<open>str.isspace\<close> on the code points below 256: TAB, LF, VT, FF, CR, FS, GS, RS, US,
      SPACE, NEL and NBSP.\<close>
  "isspace c = ((of_char c :: nat) \<in> {9, 10, 11, 12, 13, 28, 29, 30, 31, 32, 133, 160})"

definition lstrip :: "string \<Rightarrow> string" where
  "lstrip s = dropWhile isspace s"

definition rstrip :: "string \<Rightarrow> string" where
  "rstrip s = rev (dropWhile isspace (rev s))"

definition strip :: "string \<Rightarrow> string" where
  \<comment> \<open>\<open>s.strip()\<close>\<close>
  "strip s = rstrip (lstrip s)"

fun split_on :: "char \<Rightarrow> string \<Rightarrow> string list" where
  \<comment> \<open>\<open>s.split(c)\<close> for a one-character separator: never the empty list.\<close>
  "split_on c [] = [[]]"
| "split_on c (x # xs) =
     (if x = c then [] # split_on c xs
      else (case split_on c xs of [] \<Rightarrow> [[x]] | w # ws \<Rightarrow> (x # w) # ws))"

definition split1 :: "char \<Rightarrow> string \<Rightarrow> string \<times> string" where
  \<comment> \<open>\<open>k, v = s.split(c, 1)\<close> on a string that contains \<open>c\<close>: the text before the first
      \<open>c\<close> and the text after it.\<close>
  "split1 c s = (takeWhile (\<lambda>x. x \<noteq> c) s, tl (dropWhile (\<lambda>x. x \<noteq> c) s))"

definition startswith :: "string \<Rightarrow> string \<Rightarrow> bool" where
  \<comment> \<open>\<open>s.startswith(p)\<close>\<close>
  "startswith s p = (take (length p) s = p)"

fun contains :: "string \<Rightarrow> string \<Rightarrow> bool" where
  \<comment> \<open>\<open>p in s\<close>: \<open>p\<close> occurs in \<open>s\<close> as a contiguous substring.\<close>
  "contains [] p = (p = [])"
| "contains (x # xs) p = (startswith (x # xs) p \<or> contains xs p)"

definition lower_char :: "char \<Rightarrow> char" where
  \<comment> \<open>\<open>str.lower\<close> on one code point below 256: A-Z and the Latin-1 capitals
      0xC0-0xDE (without the multiplication sign 0xD7) move up by 32.\<close>
  "lower_char c =
     (let n = (of_char c :: nat)
      in if (65 \<le> n \<and> n \<le> 90) \<or> (192 \<le> n \<and> n \<le> 222 \<and> n \<noteq> 215)
         then char_of (n + 32) else c)"

definition lower :: "string \<Rightarrow> string" where
  "lower s = map lower_char s"

section \<open>The GATT credential service (auto\_bluetooth\_wifi\_sharer.py)\<close>

record wifi_service =
  wifi_ssid :: string
  wifi_password :: string
  service_device_info :: "(string \<times> string) list"

definition init_service :: wifi_service where
  \<comment> \<open>\<open>WiFiCredentialService.__init__\<close>\<close>
  "init_service = \<lparr>wifi_ssid = ''Unknown'', wifi_password = ''Unknown'', service_device_info = []\<rparr>"

definition chr :: "8 word \<Rightarrow> char" where
  \<comment> \<open>\<open>chr(b)\<close> for a D-Bus byte (signature \<open>ay\<close>)\<close>
  "chr b = char_of (unat b)"

definition ord :: "char \<Rightarrow> int" where
  \<comment> \<open>\<open>ord(c)\<close>\<close>
  "ord c = of_char c"

definition ssid_WriteValue :: "8 word list \<Rightarrow> wifi_service \<Rightarrow> wifi_service" where
  \<comment> \<open>\<open>WiFiSSIDCharacteristic.WriteValue\<close>\<close>
  "ssid_WriteValue v svc = (let ssid = map chr v in svc\<lparr>wifi_ssid := ssid\<rparr>)"

definition ssid_ReadValue :: "wifi_service \<Rightarrow> int list" where
  \<comment> \<open>\<open>WiFiSSIDCharacteristic.ReadValue\<close>\<close>
  "ssid_ReadValue svc = map ord (wifi_ssid svc)"

definition password_WriteValue :: "8 word list \<Rightarrow> wifi_service \<Rightarrow> wifi_service" where
  \<comment> \<open>\<open>WiFiPasswordCharacteristic.WriteValue\<close>\<close>
  "password_WriteValue v svc = (let password = map chr v in svc\<lparr>wifi_password := password\<rparr>)"

definition password_ReadValue :: "wifi_service \<Rightarrow> int list" where
  \<comment> \<open>\<open>WiFiPasswordCharacteristic.ReadValue\<close>\<close>
  "password_ReadValue svc = map ord (wifi_password svc)"

section \<open>The output parsers (android\_wifi\_direct\_sharer.py, wifi\_direct\_sharer.py)\<close>

text \<open>
  A Python \<open>dict\<close> from strings to strings is an association list in insertion order;
  \<open>d[k] = v\<close> is \<open>AList.update k v d\<close>, \<open>k in d\<close> is \<open>has_key d k\<close> and
  \<open>d.get(k, default)\<close> is \<open>dict_get d k dflt\<close>.
\<close>

type_synonym dict = "(string \<times> string) list"

definition has_key :: "dict \<Rightarrow> string \<Rightarrow> bool" where
  "has_key d k = (map_of d k \<noteq> None)"

definition dict_get :: "dict \<Rightarrow> string \<Rightarrow> string \<Rightarrow> string" where
  "dict_get d k dflt = (case map_of d k of None \<Rightarrow> dflt | Some v \<Rightarrow> v)"

fun parse_lines :: "dict \<Rightarrow> string list \<Rightarrow> dict" where
  \<comment> \<open>The loop \<open>for line in lines: if '=' in line: key, value = line.split('=', 1);
      network_info[key.strip()] = value.strip()\<close>\<close>
  "parse_lines network_info [] = network_info"
| "parse_lines network_info (line # lines) =
     parse_lines
       (if contains line ''=''
        then (let (key, value) = split1 CHR ''='' line
              in AList.update (strip key) (strip value) network_info)
        else network_info)
       lines"

definition parse_status :: "string \<Rightarrow> dict" where
  \<comment> \<open>The first half of \<open>extract_android_network_credentials\<close> and of
      \<open>extract_network_credentials\<close>: \<open>lines = status.split('\n')\<close>, then the loop.\<close>
  "parse_status status = parse_lines [] (split_on NL status)"

definition flush :: "dict list \<Rightarrow> dict \<Rightarrow> dict list" where
  \<comment> \<open>\<open>if current_device and 'address' in current_device: devices.append(current_device)\<close>\<close>
  "flush devices current_device =
     (if current_device \<noteq> [] \<and> has_key current_device ''address''
      then devices @ [current_device] else devices)"

definition device_line :: "dict list \<Rightarrow> dict \<Rightarrow> string \<Rightarrow> dict list \<times> dict" where
  \<comment> \<open>The body of the loop of \<open>parse_android_devices\<close> on one line, from the current
      \<open>devices\<close> and \<open>current_device\<close>.\<close>
  "device_line devices current_device l =
     (let line = strip l
      in if startswith line ''dev_addr='' then
           (flush devices current_device, [(''address'', snd (split1 CHR ''='' line))])
         else if startswith line ''dev_name='' then
           (devices, AList.update ''name'' (snd (split1 CHR ''='' line)) current_device)
         else if startswith line ''p2p_dev_addr='' then
           (devices, AList.update ''p2p_address'' (snd (split1 CHR ''='' line)) current_device)
         else if startswith line ''p2p_go_intent='' then
           (devices, AList.update ''go_intent'' (snd (split1 CHR ''='' line)) current_device)
         else if startswith line ''p2p_dev_capab='' then
           (devices, AList.update ''capabilities'' (snd (split1 CHR ''='' line)) current_device)
         else (devices, current_device))"

fun device_loop :: "dict list \<Rightarrow> dict \<Rightarrow> string list \<Rightarrow> dict list \<times> dict" where
  \<comment> \<open>\<open>for line in lines: ...\<close>\<close>
  "device_loop devices current_device [] = (devices, current_device)"
| "device_loop devices current_device (l # lines) =
     (let (devices', current_device') = device_line devices current_device l
      in device_loop devices' current_device' lines)"

definition parse_device_lines :: "string list \<Rightarrow> dict list" where
  \<comment> \<open>The loop from \<open>devices = []\<close>, \<open>current_device = {}\<close>, then the flush of the last
      device.\<close>
  "parse_device_lines lines =
     (let (devices, current_device) = device_loop [] [] lines
      in flush devices current_device)"

definition parse_android_devices :: "string \<Rightarrow> dict list" where
  \<comment> \<open>\<open>parse_android_devices\<close>: \<open>lines = peers_output.strip().split('\n')\<close>\<close>
  "parse_android_devices peers_output = parse_device_lines (split_on NL (strip peers_output))"



section \<open>The world outside the program\<close>

text \<open>
  Every blocking call the program makes (an external command through \<open>subprocess.run\<close>,
  \<open>time.sleep\<close>, opening a file for writing) is an operation. The environment answers the
  \<open>n\<close>-th operation of a run with an outcome and the time it took; the state keeps the
  clock that \<open>time.time()\<close> reads (in milliseconds), the operations issued so far with
  their issue times, the files the program wrote, and the fields of the sharer object.
\<close>

datatype exn = CalledProcessError | TimeoutExpired | OSError

datatype outcome = Exit int string | Failed

record response =
  outcome :: outcome
  duration :: nat

type_synonym env = "nat \<Rightarrow> response"

datatype op = Run "string list" | Sleep nat | Write string

datatype content = Text string | Json dict

record state =
  clock :: nat
  trace :: "(nat \<times> op) list"
  files :: "string \<rightharpoonup> content"
  connected_devices :: "string set"
  credentials_received :: bool

definition env_of :: "response list \<Rightarrow> env" where
  \<comment> \<open>A scripted environment: the listed answers in order, then commands that cannot be
      started.\<close>
  "env_of rs n = (if n < length rs then rs ! n else \<lparr>outcome = Failed, duration = 0\<rparr>)"

definition issue :: "op \<Rightarrow> nat \<Rightarrow> 'a state_scheme \<Rightarrow> 'a state_scheme" where
  \<comment> \<open>Record an operation issued now that takes \<open>d\<close> milliseconds.\<close>
  "issue a d s = s\<lparr>clock := clock s + d, trace := trace s @ [(clock s, a)]\<rparr>"

definition result_of :: "outcome \<Rightarrow> exn + int \<times> string" where
  "result_of r = (case r of Exit rc out \<Rightarrow> Inr (rc, out) | Failed \<Rightarrow> Inl OSError)"

definition run :: "env \<Rightarrow> string list \<Rightarrow> nat option \<Rightarrow> 'a state_scheme
    \<Rightarrow> (exn + int \<times> string) \<times> 'a state_scheme" where
  \<comment> \<open>\<open>subprocess.run(cmd, capture_output=True, text=True, check=False, timeout=t)\<close>:
      the return code and stdout, \<open>TimeoutExpired\<close> when the command outlives a given
      timeout (seconds), \<open>OSError\<close> when it cannot be started.\<close>
  "run env cmd timeout s =
     (let r = env (length (trace s))
      in case timeout of
           Some t \<Rightarrow>
             if duration r > t * 1000 then (Inl TimeoutExpired, issue (Run cmd) (t * 1000) s)
             else (result_of (outcome r), issue (Run cmd) (duration r) s)
         | None \<Rightarrow> (result_of (outcome r), issue (Run cmd) (duration r) s))"

definition run_checked :: "env \<Rightarrow> string list \<Rightarrow> nat option \<Rightarrow> 'a state_scheme
    \<Rightarrow> (exn + int \<times> string) \<times> 'a state_scheme" where
  \<comment> \<open>\<open>subprocess.run(cmd, ..., check=True)\<close>: a non-zero return code raises
      \<open>CalledProcessError\<close>.\<close>
  "run_checked env cmd timeout s =
     (case run env cmd timeout s of
        (Inl e, s') \<Rightarrow> (Inl e, s')
      | (Inr (rc, out), s') \<Rightarrow>
          if rc \<noteq> 0 then (Inl CalledProcessError, s') else (Inr (rc, out), s'))"

definition sleep :: "env \<Rightarrow> nat \<Rightarrow> 'a state_scheme \<Rightarrow> 'a state_scheme" where
  \<comment> \<open>\<open>time.sleep(n)\<close>: at least \<open>n\<close> seconds pass.\<close>
  "sleep env n s = issue (Sleep n) (n * 1000 + duration (env (length (trace s)))) s"

definition write_file :: "env \<Rightarrow> string \<Rightarrow> content \<Rightarrow> 'a state_scheme
    \<Rightarrow> (exn + unit) \<times> 'a state_scheme" where
  \<comment> \<open>\<open>with open(path, 'w') as f: f.write(...)\<close> (or \<open>json.dump(..., f)\<close>): the file
      holds the new content, or \<open>open\<close> raises and the file is untouched.\<close>
  "write_file env path c s =
     (let r = env (length (trace s)); s' = issue (Write path) (duration r) s
      in case outcome r of
           Exit rc out \<Rightarrow> (Inr (), s'\<lparr>files := (files s')(path \<mapsto> c)\<rparr>)
         | Failed \<Rightarrow> (Inl OSError, s'))"

section \<open>AndroidWiFiDirectSharer (android\_wifi\_direct\_sharer.py)\<close>

definition config_file :: string where
  "config_file = ''/etc/wifi_credentials.json''"

definition timeout_seconds :: nat where
  "timeout_seconds = 90"

definition wpa_cli :: "string list \<Rightarrow> string list" where
  "wpa_cli args = ''sudo'' # ''wpa_cli'' # args"

definition wpa_client_config :: "string \<Rightarrow> string \<Rightarrow> string" where
  \<comment> \<open>The f-string \<open>wpa_config\<close> of \<open>connect_to_extracted_network\<close> and
      \<open>connect_to_wifi\<close>.\<close>
  "wpa_client_config ssid password =
     [NL] @ ''ctrl_interface=/var/run/wpa_supplicant'' @ [NL]
     @ ''ctrl_interface_group=0'' @ [NL]
     @ ''update_config=1'' @ [NL] @ [NL]
     @ ''network={'' @ [NL]
     @ ''    ssid='' @ [CHR 0x22] @ ssid @ [CHR 0x22] @ [NL]
     @ ''    psk='' @ [CHR 0x22] @ password @ [CHR 0x22] @ [NL]
     @ ''    key_mgmt=WPA-PSK'' @ [NL]
     @ ''    scan_ssid=1'' @ [NL]
     @ ''}'' @ [NL]"

definition start_wpa_supplicant :: "string list" where
  "start_wpa_supplicant =
     [''sudo'', ''wpa_supplicant'', ''-B'', ''-i'', ''wlan0'',
      ''-c'', ''/etc/wpa_supplicant/wpa_supplicant.conf'', ''-D'', ''nl80211'']"

definition check_wifi_connection :: "env \<Rightarrow> state \<Rightarrow> bool \<times> state" where
  "check_wifi_connection env s =
     (case run_checked env [''iwconfig'', ''wlan0''] None s of
        (Inl e, s1) \<Rightarrow> (False, s1)
      | (Inr (rc, output), s1) \<Rightarrow>
          if rc = 0 then
            (if contains output ''ESSID:'' \<and> \<not> contains output ''Not-Associated''
             then (True, s1) else (False, s1))
          else (False, s1))"

definition connect_to_extracted_network :: "env \<Rightarrow> string \<Rightarrow> string \<Rightarrow> state \<Rightarrow> bool \<times> state" where
  "connect_to_extracted_network env ssid password s =
     (case run_checked env (wpa_cli [''p2p_stop_find'']) None s of
        (Inl e, s1) \<Rightarrow> (False, s1)
      | (Inr r1, s1) \<Rightarrow>
     (case run_checked env [''sudo'', ''killall'', ''wpa_supplicant''] None s1 of
        (Inl e, s2) \<Rightarrow> (False, s2)
      | (Inr r2, s2) \<Rightarrow>
     (case write_file env ''/tmp/wpa_supplicant_client.conf''
             (Text (wpa_client_config ssid password)) s2 of
        (Inl e, s3) \<Rightarrow> (False, s3)
      | (Inr u, s3) \<Rightarrow>
     (case run_checked env [''sudo'', ''cp'', ''/tmp/wpa_supplicant_client.conf'',
             ''/etc/wpa_supplicant/wpa_supplicant.conf''] None s3 of
        (Inl e, s4) \<Rightarrow> (False, s4)
      | (Inr r4, s4) \<Rightarrow>
     (case run_checked env start_wpa_supplicant None s4 of
        (Inl e, s5) \<Rightarrow> (False, s5)
      | (Inr r5, s5) \<Rightarrow>
          (let (connected, s6) = check_wifi_connection env (sleep env 10 s5)
           in if connected then (True, s6) else (False, s6)))))))"

definition extract_android_network_credentials :: "env \<Rightarrow> string \<Rightarrow> state \<Rightarrow> bool \<times> state" where
  "extract_android_network_credentials env status s =
     (let network_info = parse_status status
      in if has_key network_info ''ssid'' \<or> has_key network_info ''psk'' then
           (let ssid = dict_get network_info ''ssid'' ''Unknown'';
                password = dict_get network_info ''psk'' ''Unknown''
            in if ssid \<noteq> ''Unknown'' \<and> password \<noteq> ''Unknown'' then
                 (case write_file env config_file
                         (Json [(''ssid'', ssid), (''password'', password)]) s of
                    (Inl e, s1) \<Rightarrow> (False, s1)
                  | (Inr u, s1) \<Rightarrow>
                      (let (connected, s2) =
                             connect_to_extracted_network env ssid password
                               (s1\<lparr>credentials_received := True\<rparr>)
                       in if connected then (True, s2) else (False, s2)))
               else (False, s))
         else (False, s))"

definition extract_credentials_from_android_wifi_direct :: "env \<Rightarrow> state \<Rightarrow> bool \<times> state" where
  "extract_credentials_from_android_wifi_direct env s =
     (case run_checked env (wpa_cli [''status'']) None s of
        (Inl e, s1) \<Rightarrow> (False, s1)
      | (Inr (rc, status), s1) \<Rightarrow>
          if rc = 0 then
            (let (found, s2) = extract_android_network_credentials env status s1
             in if found then (True, s2) else (False, s2))
          else (False, s1))"

definition check_android_wifi_direct_connection :: "env \<Rightarrow> state \<Rightarrow> bool \<times> state" where
  "check_android_wifi_direct_connection env s =
     (case run_checked env (wpa_cli [''status'']) None s of
        (Inl e, s1) \<Rightarrow> (False, s1)
      | (Inr (rc, status), s1) \<Rightarrow>
          if rc = 0 then
            (if contains status ''p2p_go_mode=1'' \<or> contains status ''p2p_client_mode=1''
             then (True, s1)
             else if contains (lower status) ''p2p'' then (False, s1)
             else (False, s1))
          else (False, s1))"

fun wait_for_connection :: "env \<Rightarrow> nat \<Rightarrow> state \<Rightarrow> bool \<times> state" where
  \<comment> \<open>The polling loop of \<open>connect_to_android_via_wifi_direct\<close> with \<open>n\<close> iterations
      left: \<open>time.sleep(1)\<close>, then the status check; falling out of the loop returns
      False.\<close>
  "wait_for_connection env 0 s = (False, s)"
| "wait_for_connection env (Suc n) s =
     (let (established, s1) = check_android_wifi_direct_connection env (sleep env 1 s)
      in if established then extract_credentials_from_android_wifi_direct env s1
         else wait_for_connection env n s1)"

definition connect_to_android_via_wifi_direct :: "env \<Rightarrow> string \<Rightarrow> string \<Rightarrow> state \<Rightarrow> bool \<times> state" where
  "connect_to_android_via_wifi_direct env device_name device_address s =
     (case run_checked env (wpa_cli [''p2p_connect'', device_address, ''pbc'']) None s of
        (Inl e, s1) \<Rightarrow> (False, s1)
      | (Inr (rc, out), s1) \<Rightarrow>
          if rc = 0 then wait_for_connection env 45 s1 else (False, s1))"

definition debug_android_wifi_direct_state :: "env \<Rightarrow> state \<Rightarrow> state" where
  "debug_android_wifi_direct_state env s =
     (case run_checked env (wpa_cli [''status'']) None s of
        (Inl e, s1) \<Rightarrow> s1
      | (Inr r1, s1) \<Rightarrow>
     (case run_checked env (wpa_cli [''p2p_peers'']) None s1 of
        (Inl e, s2) \<Rightarrow> s2
      | (Inr r2, s2) \<Rightarrow>
     (case run_checked env (wpa_cli [''p2p_group_info'']) None s2 of
        (Inl e, s3) \<Rightarrow> s3
      | (Inr r3, s3) \<Rightarrow>
          snd (run_checked env [''ip'', ''addr'', ''show''] None s3))))"

definition check_for_android_service_responses :: "env \<Rightarrow> state \<Rightarrow> bool \<times> state" where
  "check_for_android_service_responses env s =
     (case run env (wpa_cli [''p2p_serv_disc_resp'']) None s of
        (Inl e, s1) \<Rightarrow> (False, s1)
      | (Inr (rc, out), s1) \<Rightarrow>
          if rc = 0 \<and> strip out \<noteq> [] then (True, s1) else (False, s1))"

definition check_android_group_status :: "env \<Rightarrow> state \<Rightarrow> bool \<times> state" where
  "check_android_group_status env s =
     (case run env (wpa_cli [''p2p_group_info'']) None s of
        (Inl e, s1) \<Rightarrow> (False, s1)
      | (Inr (rc, out), s1) \<Rightarrow>
          if rc = 0 \<and> strip out \<noteq> [] then
            (if contains out ''group_id='' then (True, s1) else (False, s1))
          else (False, s1))"

definition parse_android_network_info :: "string \<Rightarrow> bool" where
  "parse_android_network_info device_info =
     list_ex (\<lambda>indicator. contains (lower device_info) indicator)
       [''network'', ''ssid'', ''wifi'', ''hotspot'', ''tethering'']"

fun check_sources :: "env \<Rightarrow> string list list \<Rightarrow> state \<Rightarrow> bool \<times> state" where
  \<comment> \<open>The loop \<open>for source in sources\<close> of \<open>check_for_android_network_info\<close>; a
      command that raises is skipped.\<close>
  "check_sources env [] s = (False, s)"
| "check_sources env (source # sources) s =
     (case run_checked env source None s of
        (Inl e, s1) \<Rightarrow> check_sources env sources s1
      | (Inr (rc, out), s1) \<Rightarrow>
          if rc = 0 \<and> strip out \<noteq> []
             \<and> list_ex (\<lambda>indicator. contains (lower out) indicator)
                  [''network'', ''ssid'', ''wifi'', ''android'', ''p2p'']
          then (True, s1)
          else check_sources env sources s1)"

definition check_for_android_network_info :: "env \<Rightarrow> state \<Rightarrow> bool \<times> state" where
  "check_for_android_network_info env s =
     check_sources env
       [wpa_cli [''p2p_peers''], wpa_cli [''status''], wpa_cli [''list_networks'']] s"

definition direct_android_extraction :: "env \<Rightarrow> string \<Rightarrow> string \<Rightarrow> state \<Rightarrow> bool \<times> state" where
  "direct_android_extraction env device_name device_address s =
     (case run_checked env (wpa_cli [''p2p_peer'', device_address]) None s of
        (Inl e, s1) \<Rightarrow> (False, s1)
      | (Inr (rc, out), s1) \<Rightarrow>
          if rc = 0 \<and> parse_android_network_info out then (True, s1)
          else
            (case run_checked env (wpa_cli [''p2p_serv_disc_req'', device_address, ''02000001''])
                    None s1 of
               (Inl e, s2) \<Rightarrow> (False, s2)
             | (Inr r2, s2) \<Rightarrow>
                 (let (found, s3) = check_for_android_network_info env (sleep env 10 s2)
                  in if found then (True, s3) else (False, s3))))"

definition try_android_specific_methods :: "env \<Rightarrow> string \<Rightarrow> string \<Rightarrow> state \<Rightarrow> bool \<times> state" where
  "try_android_specific_methods env device_name device_address s =
     (case run_checked env (wpa_cli [''p2p_serv_disc_req'', device_address, ''02000001''])
             None s of
        (Inl e, s1) \<Rightarrow> (False, s1)
      | (Inr (rc, out), s1) \<Rightarrow>
          (let (responded, s2) =
                 (if rc = 0 then check_for_android_service_responses env (sleep env 10 s1)
                  else (False, s1))
           in if responded then (True, s2)
              else
                (case run_checked env (wpa_cli [''p2p_group_add'']) None s2 of
                   (Inl e, s3) \<Rightarrow> (False, s3)
                 | (Inr (rc', out'), s3) \<Rightarrow>
                     (let (formed, s4) =
                            (if rc' = 0 then check_android_group_status env (sleep env 15 s3)
                             else (False, s3))
                      in if formed then (True, s4)
                         else direct_android_extraction env device_name device_address s4))))"

fun connect_loop :: "env \<Rightarrow> nat \<Rightarrow> dict list \<Rightarrow> state \<Rightarrow> bool option \<times> state" where
  \<comment> \<open>Step 3 of \<open>extract_wifi_credentials_from_android\<close>, the loop over the discovered
      devices: \<open>Some b\<close> when the loop returns \<open>b\<close> from the function, \<open>None\<close> when it
      runs to its end. The log line at the top of the body reads
      \<open>device_info['address']\<close>; a missing key raises \<open>KeyError\<close>, which the function's
      handler turns into False.\<close>
  "connect_loop env start_time [] s = (None, s)"
| "connect_loop env start_time (device_info # devices) s =
     (case map_of device_info ''address'' of
        None \<Rightarrow> (Some False, s)
      | Some address \<Rightarrow>
          if clock s - start_time > timeout_seconds * 1000 then (Some False, s)
          else
            (let (connected, s1) =
                   connect_to_android_via_wifi_direct env
                     (dict_get device_info ''name'' ''Unknown'') address s
             in if connected then (Some True, s1)
                else connect_loop env start_time devices
                       (debug_android_wifi_direct_state env s1)))"

definition android_specific_step :: "env \<Rightarrow> nat \<Rightarrow> string \<Rightarrow> string \<Rightarrow> state \<Rightarrow> bool \<times> state" where
  \<comment> \<open>Step 4 of \<open>extract_wifi_credentials_from_android\<close> and the final return.\<close>
  "android_specific_step env start_time device_name device_address s =
     (if clock s - start_time > timeout_seconds * 1000 then (False, s)
      else (let (found, s1) = try_android_specific_methods env device_name device_address s
            in if found then (True, s1) else (False, s1)))"

definition extract_wifi_credentials_from_android :: "env \<Rightarrow> string \<Rightarrow> string \<Rightarrow> state \<Rightarrow> bool \<times> state" where
  "extract_wifi_credentials_from_android env device_name device_address s =
     (let start_time = clock s
      in case run_checked env (wpa_cli [''p2p_find'']) (Some 10) s of
           (Inl e, s1) \<Rightarrow> (False, s1)
         | (Inr r1, s1) \<Rightarrow>
             (let s2 = sleep env 15 s1
              in if clock s2 - start_time > timeout_seconds * 1000 then (False, s2)
                 else
                   (case run_checked env (wpa_cli [''p2p_peers'']) None s2 of
                      (Inl e, s3) \<Rightarrow> (False, s3)
                    | (Inr (rc, out), s3) \<Rightarrow>
                        (let (returned, s4) =
                               (if rc = 0 \<and> strip out \<noteq> []
                                then connect_loop env start_time (parse_android_devices out) s3
                                else (None, s3))
                         in case returned of
                              Some b \<Rightarrow> (b, s4)
                            | None \<Rightarrow>
                                android_specific_step env start_time device_name
                                  device_address s4))))"

definition on_device_connected :: "env \<Rightarrow> string \<Rightarrow> (string \<times> dict) list \<Rightarrow> state \<Rightarrow> state" where
  \<comment> \<open>The handler of \<open>InterfacesAdded\<close>.\<close>
  "on_device_connected env path interfaces s =
     (case map_of interfaces ''org.bluez.Device1'' of
        None \<Rightarrow> s
      | Some device \<Rightarrow>
          (let device_name = dict_get device ''Name'' ''Unknown Device'';
               device_address = dict_get device ''Address'' ''Unknown'';
               s1 = s\<lparr>connected_devices := insert path (connected_devices s)\<rparr>
           in snd (extract_wifi_credentials_from_android env device_name device_address s1)))"


section \<open>WiFiDirectSharer (wifi\_direct\_sharer.py)\<close>

definition extract_network_credentials :: "env \<Rightarrow> string \<Rightarrow> state \<Rightarrow> bool \<times> state" where
  "extract_network_credentials env status s =
     (let network_info = parse_status status
      in if has_key network_info ''ssid'' \<or> has_key network_info ''psk'' then
           (let ssid = dict_get network_info ''ssid'' ''Unknown'';
                password = dict_get network_info ''psk'' ''Unknown''
            in if ssid \<noteq> ''Unknown'' \<and> password \<noteq> ''Unknown'' then
                 (case write_file env config_file
                         (Json [(''ssid'', ssid), (''password'', password)]) s of
                    (Inl e, s1) \<Rightarrow> (False, s1)
                  | (Inr u, s1) \<Rightarrow> (True, s1\<lparr>credentials_received := True\<rparr>))
               else (False, s))
         else (False, s))"

section \<open>AutoBluetoothWiFiSharer (auto\_bluetooth\_wifi\_sharer.py)\<close>

record bt_state = state +
  wifi_service :: "wifi_service option"
  mainloop_quit :: "bool option"

definition connect_to_wifi :: "env \<Rightarrow> string \<Rightarrow> string \<Rightarrow> bt_state \<Rightarrow> (exn + bool) \<times> bt_state" where
  \<comment> \<open>Only \<open>CalledProcessError\<close> is handled here; an \<open>OSError\<close> leaves the function.\<close>
  "connect_to_wifi env ssid password s =
     (case write_file env ''/tmp/wpa_supplicant.conf'' (Text (wpa_client_config ssid password)) s of
        (Inl e, s1) \<Rightarrow> (Inl e, s1)
      | (Inr u, s1) \<Rightarrow>
     (case run_checked env [''sudo'', ''cp'', ''/tmp/wpa_supplicant.conf'',
             ''/etc/wpa_supplicant/wpa_supplicant.conf''] None s1 of
        (Inl e, s2) \<Rightarrow> (if e = CalledProcessError then Inr False else Inl e, s2)
      | (Inr r2, s2) \<Rightarrow>
     (case run_checked env [''sudo'', ''systemctl'', ''restart'', ''networking''] None s2 of
        (Inl e, s3) \<Rightarrow> (if e = CalledProcessError then Inr False else Inl e, s3)
      | (Inr r3, s3) \<Rightarrow>
     (case run env [''iwconfig'', ''wlan0''] None (sleep env 10 s3) of
        (Inl e, s4) \<Rightarrow> (Inl e, s4)
      | (Inr (rc, out), s4) \<Rightarrow>
          if contains out ''ESSID:'' \<and> \<not> contains out ''off/any'' then
            (case write_file env config_file
                    (Json [(''ssid'', ssid), (''password'', password)]) s4 of
               (Inl e, s5) \<Rightarrow> (Inl e, s5)
             | (Inr u', s5) \<Rightarrow> (Inr True, s5))
          else (Inr False, s4)))))"

definition check_credentials :: "env \<Rightarrow> bt_state \<Rightarrow> bt_state" where
  \<comment> \<open>Every exception is caught and logged; \<open>mainloop_quit\<close> is \<open>None\<close> while there is
      no main loop and \<open>Some True\<close> once \<open>mainloop.quit()\<close> was called.\<close>
  "check_credentials env s =
     (case wifi_service s of
        None \<Rightarrow> s
      | Some svc \<Rightarrow>
          if wifi_ssid svc \<noteq> [] \<and> wifi_ssid svc \<noteq> ''Unknown''
             \<and> wifi_password svc \<noteq> [] \<and> wifi_password svc \<noteq> ''Unknown''
          then
            (case connect_to_wifi env (wifi_ssid svc) (wifi_password svc)
                    (s\<lparr>credentials_received := True\<rparr>) of
               (Inl e, s1) \<Rightarrow> s1
             | (Inr connected, s1) \<Rightarrow>
                 if connected
                 then (case mainloop_quit s1 of
                         None \<Rightarrow> s1
                       | Some q \<Rightarrow> s1\<lparr>mainloop_quit := Some True\<rparr>)
                 else s1)
          else s)"

section \<open>Observations on a run\<close>

fun connect_address :: "op \<Rightarrow> string option" where
  \<comment> \<open>The peer address of a \<open>wpa_cli p2p_connect <address> pbc\<close> command.\<close>
  "connect_address (Run [a, b, c, address, e]) =
     (if a = ''sudo'' \<and> b = ''wpa_cli'' \<and> c = ''p2p_connect'' \<and> e = ''pbc''
      then Some address else None)"
| "connect_address other = None"

definition connect_attempts :: "'a state_scheme \<Rightarrow> (nat \<times> string) list" where
  \<comment> \<open>The connect requests issued so far: issue time and peer address, in order.\<close>
  "connect_attempts s =
     List.map_filter (\<lambda>(t, a). map_option (Pair t) (connect_address a)) (trace s)"

definition discoveries :: "'a state_scheme \<Rightarrow> nat list" where
  \<comment> \<open>The issue times of the \<open>wpa_cli p2p_find\<close> commands so far: one per extraction
      started.\<close>
  "discoveries s = map fst (filter (\<lambda>(t, a). a = Run (wpa_cli [''p2p_find''])) (trace s))"

definition run_time :: "env \<Rightarrow> nat option \<Rightarrow> 'a state_scheme \<Rightarrow> nat" where
  \<comment> \<open>The time the next command takes: its duration, cut at the timeout.\<close>
  "run_time env timeout s =
     (let d = duration (env (length (trace s)))
      in case timeout of Some t \<Rightarrow> min d (t * 1000) | None \<Rightarrow> d)"

definition quiet :: "'a state_scheme \<Rightarrow> 'a state_scheme \<Rightarrow> bool" where
  \<comment> \<open>Two states agree on everything but the clock, the files other than the credential
      file, and the operations that are neither connect requests nor discoveries.\<close>
  "quiet s s' = (connected_devices s' = connected_devices s
     \<and> connect_attempts s' = connect_attempts s
     \<and> discoveries s' = discoveries s
     \<and> files s' config_file = files s config_file
     \<and> credentials_received s' = credentials_received s)"

definition plain :: "string list \<Rightarrow> bool" where
  \<comment> \<open>A command that is neither a connect request nor a discovery.\<close>
  "plain cmd = (connect_address (Run cmd) = None \<and> cmd \<noteq> wpa_cli [''p2p_find''])"

definition init_state :: state where
  \<comment> \<open>The sharer after \<open>__init__\<close>, at time 0, before any operation.\<close>
  "init_state =
     \<lparr>clock = 0, trace = [], files = Map.empty, connected_devices = {},
      credentials_received = False\<rparr>"

definition answer :: "int \<Rightarrow> string \<Rightarrow> nat \<Rightarrow> response" where
  \<comment> \<open>A command that exits with a return code and an output after some milliseconds.\<close>
  "answer rc out d = \<lparr>outcome = Exit rc out, duration = d\<rparr>"

definition associated :: "outcome \<Rightarrow> bool" where
  \<comment> \<open>An answer of \<open>iwconfig wlan0\<close> that \<open>check_wifi_connection\<close> takes for an
      established association.\<close>
  "associated r =
     (case r of
        Exit rc out \<Rightarrow> rc = 0 \<and> contains out ''ESSID:'' \<and> \<not> contains out ''Not-Associated''
      | Failed \<Rightarrow> False)"

definition home_credential :: content where
  "home_credential = Json [(''ssid'', ''HomeNet''), (''password'', ''s3cr3t'')]"

definition stored_state :: state where
  \<comment> \<open>A sharer whose credential file already holds a credential.\<close>
  "stored_state = init_state\<lparr>files := [config_file \<mapsto> home_credential]\<rparr>"

definition stored_bt_state :: bt_state where
  "stored_bt_state =
     \<lparr>clock = 0, trace = [], files = [config_file \<mapsto> home_credential],
      connected_devices = {}, credentials_received = False,
      wifi_service = None, mainloop_quit = None\<rparr>"

definition associated_any :: "outcome \<Rightarrow> bool" where
  \<comment> \<open>An answer of \<open>iwconfig wlan0\<close> that \<open>connect_to_wifi\<close> takes for an established
      association (that call does not look at the return code).\<close>
  "associated_any r =
     (case r of
        Exit rc out \<Rightarrow> contains out ''ESSID:'' \<and> \<not> contains out ''off/any''
      | Failed \<Rightarrow> False)"

definition shows_connection :: "outcome \<Rightarrow> bool" where
  \<comment> \<open>An answer of \<open>wpa_cli status\<close> that \<open>check_android_wifi_direct_connection\<close> takes
      for an established connection.\<close>
  "shows_connection r =
     (case r of
        Exit rc status \<Rightarrow>
          rc = 0 \<and> (contains status ''p2p_go_mode=1'' \<or> contains status ''p2p_client_mode=1'')
      | Failed \<Rightarrow> False)"

definition holds_credential :: "state \<Rightarrow> bool" where
  \<comment> \<open>The credential file holds a credential whose two fields differ from the sentinel.\<close>
  "holds_credential s =
     (case files s config_file of
        Some (Json [(a, ssid), (b, password)]) \<Rightarrow>
          a = ''ssid'' \<and> b = ''password'' \<and> ssid \<noteq> ''Unknown'' \<and> password \<noteq> ''Unknown''
      | _ \<Rightarrow> False)"

definition succeeded :: "env \<Rightarrow> state \<Rightarrow> bool" where
  \<comment> \<open>What the last ten operations of a successful attempt were: a status poll that showed an
      established connection, the status query, the write of the credential file, the seven
      steps of joining the network, the last of which showed an association.\<close>
  "succeeded env s =
     (10 \<le> length (trace s)
      \<and> shows_connection (outcome (env (length (trace s) - 10)))
      \<and> associated (outcome (env (length (trace s) - 1)))
      \<and> holds_credential s
      \<and> credentials_received s)"

definition env_not_associated :: env where
  \<comment> \<open>Every step of \<open>connect_to_extracted_network\<close> succeeds, then \<open>iwconfig\<close> reports
      no association.\<close>
  "env_not_associated =
     env_of [answer 0 [] 100, answer 0 [] 100, answer 0 [] 100, answer 0 [] 100,
             answer 0 [] 100, answer 0 [] 0,
             answer 0 ''wlan0  ESSID:off/any  Access Point: Not-Associated'' 100]"

definition env_off_any :: env where
  \<comment> \<open>Every step of \<open>connect_to_wifi\<close> succeeds, then \<open>iwconfig\<close> reports
      \<open>ESSID:off/any\<close>.\<close>
  "env_off_any =
     env_of [answer 0 [] 100, answer 0 [] 100, answer 0 [] 100, answer 0 [] 0,
             answer 0 ''wlan0  ESSID:off/any  Access Point: Not-Associated'' 100]"

definition poll :: "env \<Rightarrow> state \<Rightarrow> bool \<times> state" where
  \<comment> \<open>One iteration of the polling loop up to its test: \<open>time.sleep(1)\<close>, then
      \<open>check_android_wifi_direct_connection()\<close>.\<close>
  "poll env s = check_android_wifi_direct_connection env (sleep env 1 s)"

fun after_polls :: "env \<Rightarrow> nat \<Rightarrow> state \<Rightarrow> state" where
  \<comment> \<open>The state after \<open>k\<close> polls.\<close>
  "after_polls env 0 s = s"
| "after_polls env (Suc k) s = after_polls env k (snd (poll env s))"

definition established_at :: "env \<Rightarrow> nat \<Rightarrow> state \<Rightarrow> bool" where
  \<comment> \<open>Poll number \<open>k\<close> (counted from 0) reports an established connection.\<close>
  "established_at env k s = fst (poll env (after_polls env k s))"

definition new_ops :: "state \<Rightarrow> state \<Rightarrow> op list" where
  \<comment> \<open>The operations issued between an earlier and a later state of one run.\<close>
  "new_ops s s' = map snd (drop (length (trace s)) (trace s'))"

definition env_second_poll :: env where
  \<comment> \<open>The connect request is accepted, the first poll shows P2P activity only, the second an
      established connection; the status then carries no credential.\<close>
  "env_second_poll =
     env_of [answer 0 ''OK'' 100,
             answer 0 [] 0, answer 0 ''p2p_state=CONNECTING'' 50,
             answer 0 [] 0, answer 0 ''p2p_client_mode=1'' 50,
             answer 0 ''wpa_state=COMPLETED'' 50]"

definition env_accept_only :: env where
  \<comment> \<open>The connect request is accepted; every later command fails to start.\<close>
  "env_accept_only = env_of [answer 0 ''OK'' 100]"

definition accepted_state :: "env \<Rightarrow> state" where
  \<comment> \<open>The state right after the connect request to peer \<open>aa\<close>, from the initial state.\<close>
  "accepted_state env =
     snd (run_checked env (wpa_cli [''p2p_connect'', ''aa'', ''pbc'']) None init_state)"

definition calm :: "'a state_scheme \<Rightarrow> 'a state_scheme \<Rightarrow> bool" where
  \<comment> \<open>Two states agree on the connected devices, the connect requests and the
      discoveries.\<close>
  "calm s s' = (connected_devices s' = connected_devices s
     \<and> connect_attempts s' = connect_attempts s
     \<and> discoveries s' = discoveries s)"

definition new_attempts :: "state \<Rightarrow> state \<Rightarrow> (nat \<times> string) list" where
  \<comment> \<open>The connect requests issued between an earlier and a later state of one run.\<close>
  "new_attempts s s' = drop (length (connect_attempts s)) (connect_attempts s')"

definition addresses :: "dict list \<Rightarrow> string list" where
  \<comment> \<open>The addresses of the discovered devices, in list order.\<close>
  "addresses devices = List.map_filter (\<lambda>d. map_of d ''address'') devices"

definition empty_fields_status :: string where
  "empty_fields_status = ''ssid='' @ [NL] @ ''psk='' @ [NL]"

definition env_write_ok :: env where
  \<comment> \<open>The first operation succeeds at once; every later command fails to start.\<close>
  "env_write_ok = env_of [answer 0 [] 0]"

definition empty_fields_bt_state :: bt_state where
  \<comment> \<open>The GATT sharer after an empty SSID and an empty password were written.\<close>
  "empty_fields_bt_state =
     \<lparr>clock = 0, trace = [], files = Map.empty, connected_devices = {},
      credentials_received = False,
      wifi_service = Some (password_WriteValue [] (ssid_WriteValue [] init_service)),
      mainloop_quit = Some False\<rparr>"

definition within :: "state \<Rightarrow> state \<Rightarrow> bool" where
  \<comment> \<open>What one extraction started in state \<open>s\<close> may have done by state \<open>s'\<close>: one
      discovery, at its start; connect requests, each issued no later than the deadline; the
      connected devices untouched.\<close>
  "within s s' = ((\<exists>new. connect_attempts s' = connect_attempts s @ new
       \<and> list_all (\<lambda>(t, a). t - clock s \<le> timeout_seconds * 1000) new)
     \<and> connected_devices s' = connected_devices s
     \<and> discoveries s' = discoveries s @ [clock s])"

definition peers_ab :: string where
  \<comment> \<open>A peer list with two devices, \<open>aa\<close> then \<open>bb\<close>.\<close>
  "peers_ab = ''dev_addr=aa'' @ [NL] @ ''dev_name=Pixel'' @ [NL]
     @ ''dev_addr=bb'' @ [NL] @ ''dev_name=Nexus''"


definition env_late_peer :: env where
  \<comment> \<open>Discovery, the settle sleep and the peer list take no extra time; peer \<open>aa\<close> accepts
      (operation 3) and so does peer \<open>bb\<close> (operation 95); every other command fails to
      start, so all 45 polls of each peer report nothing.\<close>
  "env_late_peer n =
     (if n = 0 \<or> n = 1 then answer 0 [] 0
      else if n = 2 then answer 0 peers_ab 0
      else if n = 3 \<or> n = 95 then answer 0 ''OK'' 0
      else \<lparr>outcome = Failed, duration = 0\<rparr>)"

definition late_state :: state where
  \<comment> \<open>A session started at time 0 that has reached 91 seconds.\<close>
  "late_state = init_state\<lparr>clock := 91000\<rparr>"



definition pixel_path :: string where
  "pixel_path = ''/org/bluez/hci0/dev_AA_BB''"

definition pixel_interfaces :: "(string \<times> dict) list" where
  \<comment> \<open>The payload of an \<open>InterfacesAdded\<close> notification for a phone.\<close>
  "pixel_interfaces = [(''org.bluez.Device1'', [(''Name'', ''Pixel''), (''Address'', ''AA:BB'')])]"

definition env_no_discovery :: env where
  \<comment> \<open>The discovery command cannot be started, twice; each try takes 100 milliseconds.\<close>
  "env_no_discovery =
     env_of [\<lparr>outcome = Failed, duration = 100\<rparr>, \<lparr>outcome = Failed, duration = 100\<rparr>]"



section \<open>Properties\<close>

subsection \<open>What the operations leave alone\<close>

lemma issue_simps:
  "clock (issue a d s) = clock s + d"
  "trace (issue a d s) = trace s @ [(clock s, a)]"
  "files (issue a d s) = files s"
  "connected_devices (issue a d s) = connected_devices s"
  "credentials_received (issue a d s) = credentials_received s"
  by (simp_all add: issue_def)

lemma connect_attempts_issue:
  "connect_attempts (issue a d s) =
     connect_attempts s @ (case connect_address a of None \<Rightarrow> [] | Some x \<Rightarrow> [(clock s, x)])"
  by (simp add: connect_attempts_def issue_def map_filter_def split: option.splits)

lemma snd_run: "snd (run env cmd t s) = issue (Run cmd) (run_time env t s) s"
  by (simp add: run_def run_time_def Let_def min_def split: option.splits)

lemma snd_run_checked: "snd (run_checked env cmd t s) = issue (Run cmd) (run_time env t s) s"
  using snd_run [of env cmd t s]
  by (auto simp: run_checked_def split: prod.splits sum.splits)

lemma snd_write_file:
  "snd (write_file env path c s) =
     (if fst (write_file env path c s) = Inr ()
      then (issue (Write path) (duration (env (length (trace s)))) s)
             \<lparr>files := (files s)(path \<mapsto> c)\<rparr>
      else issue (Write path) (duration (env (length (trace s)))) s)"
  by (simp add: write_file_def Let_def issue_simps split: outcome.splits)

lemma quiet_refl [simp]: "quiet s s"
  by (simp add: quiet_def)

lemma quiet_peel: "quiet s s' \<Longrightarrow> quiet a s' = quiet a s"
  by (auto simp: quiet_def)

lemma discoveries_issue:
  "discoveries (issue a d s) = discoveries s @ (if a = Run (wpa_cli [''p2p_find'']) then [clock s] else [])"
  by (simp add: discoveries_def issue_def)

lemma quiet_issue:
  "connect_address a = None \<Longrightarrow> a \<noteq> Run (wpa_cli [''p2p_find'']) \<Longrightarrow> quiet s (issue a d s)"
  by (simp add: quiet_def issue_simps connect_attempts_issue discoveries_issue)

lemma quiet_run [simp]: "plain cmd \<Longrightarrow> quiet a (snd (run env cmd t s)) = quiet a s"
  by (simp add: snd_run plain_def quiet_peel [OF quiet_issue])

lemma quiet_run_checked [simp]: "plain cmd \<Longrightarrow> quiet a (snd (run_checked env cmd t s)) = quiet a s"
  by (simp add: snd_run_checked plain_def quiet_peel [OF quiet_issue])

lemma quiet_sleep [simp]: "quiet a (sleep env n s) = quiet a s"
  by (simp add: sleep_def quiet_peel [OF quiet_issue])

lemma quiet_write_file [simp]:
  "path \<noteq> config_file \<Longrightarrow> quiet a (snd (write_file env path c s)) = quiet a s"
  by (rule quiet_peel)
    (simp add: write_file_def Let_def quiet_def issue_def connect_attempts_def discoveries_def
      map_filter_def split: outcome.splits)

lemma plain_simps [simp]:
  "x \<noteq> ''p2p_find'' \<Longrightarrow> plain (wpa_cli [x])"
  "plain (wpa_cli [x, y])"
  "plain (wpa_cli [''p2p_serv_disc_req'', y, z])"
  "plain [''iwconfig'', ''wlan0'']"
  "plain [''sudo'', ''killall'', ''wpa_supplicant'']"
  "plain [''ip'', ''addr'', ''show'']"
  "plain [''sudo'', ''cp'', x, y]"
  "plain start_wpa_supplicant"
  by (simp_all add: plain_def wpa_cli_def start_wpa_supplicant_def)

lemma quiet_check_wifi_connection [simp]:
  "quiet a (snd (check_wifi_connection env s)) = quiet a s"
  by (simp add: check_wifi_connection_def split_def split: sum.split)

lemma quiet_connect_to_extracted_network [simp]:
  "quiet a (snd (connect_to_extracted_network env ssid password s)) = quiet a s"
  by (simp add: connect_to_extracted_network_def split_def Let_def config_file_def split: sum.split)

lemma quiet_check_android_wifi_direct_connection [simp]:
  "quiet a (snd (check_android_wifi_direct_connection env s)) = quiet a s"
  by (simp add: check_android_wifi_direct_connection_def split_def split: sum.split)

lemma quiet_debug_android_wifi_direct_state [simp]:
  "quiet a (debug_android_wifi_direct_state env s) = quiet a s"
  by (simp add: debug_android_wifi_direct_state_def split_def split: sum.split)

lemma quiet_check_for_android_service_responses [simp]:
  "quiet a (snd (check_for_android_service_responses env s)) = quiet a s"
  by (simp add: check_for_android_service_responses_def split_def split: sum.split)

lemma quiet_check_android_group_status [simp]:
  "quiet a (snd (check_android_group_status env s)) = quiet a s"
  by (simp add: check_android_group_status_def split_def split: sum.split)

lemma quiet_check_sources [simp]:
  "list_all plain sources \<Longrightarrow> quiet a (snd (check_sources env sources s)) = quiet a s"
  by (induction sources arbitrary: s) (simp_all add: split_def split: sum.split)

lemma quiet_check_for_android_network_info [simp]:
  "quiet a (snd (check_for_android_network_info env s)) = quiet a s"
  by (simp add: check_for_android_network_info_def del: check_sources.simps)

lemma quiet_direct_android_extraction [simp]:
  "quiet a (snd (direct_android_extraction env n d s)) = quiet a s"
  by (simp add: direct_android_extraction_def split_def Let_def split: sum.split)

lemma quiet_try_android_specific_methods [simp]:
  "quiet a (snd (try_android_specific_methods env n d s)) = quiet a s"
  by (simp add: try_android_specific_methods_def split_def Let_def split: sum.split)

lemma ord_chr: "ord (chr b) = uint b"
proof -
  have "unat b < 256"
    using unsigned_less [of b, where ?'a = nat] by simp
  then have "(of_char (char_of (unat b)) :: nat) = unat b"
    by simp
  then have "(of_char (char_of (unat b)) :: int) = int (unat b)"
    by (metis of_nat_of_char)
  then show ?thesis
    by (simp add: ord_def chr_def)
qed

text \<open>
  C10. For the SSID and the password characteristic, writing a byte list and reading the
  value back returns the same bytes: ReadValue after WriteValue v is v (as numbers 0..255).
\<close>

theorem gatt_write_read_roundtrip:
  "ssid_ReadValue (ssid_WriteValue v svc) = map uint v
   \<and> password_ReadValue (password_WriteValue v svc) = map uint v"
  by (simp add: ssid_ReadValue_def ssid_WriteValue_def password_ReadValue_def
      password_WriteValue_def ord_chr comp_def)

subsection \<open>The parsers\<close>





lemma flush_devices: "flush devs cur = devs @ flush [] cur"
  by (simp add: flush_def)















subsection \<open>The network connector\<close>

lemma length_trace_issue [simp]: "length (trace (issue a d s)) = Suc (length (trace s))"
  by (simp add: issue_def)

lemma fst_run_checked_None:
  "fst (run_checked env cmd None s) =
     (case outcome (env (length (trace s))) of
        Exit rc out \<Rightarrow> if rc \<noteq> 0 then Inl CalledProcessError else Inr (rc, out)
      | Failed \<Rightarrow> Inl OSError)"
  by (simp add: run_checked_def run_def result_of_def Let_def split: outcome.splits)

lemma length_trace_write_file [simp]:
  "length (trace (snd (write_file env path c s))) = Suc (length (trace s))"
  by (simp add: write_file_def Let_def split: outcome.splits)

lemma length_trace_sleep [simp]: "length (trace (sleep env n s)) = Suc (length (trace s))"
  by (simp add: sleep_def)

lemma length_trace_run [simp]:
  "length (trace (snd (run env cmd t s))) = Suc (length (trace s))"
  "length (trace (snd (run_checked env cmd t s))) = Suc (length (trace s))"
  by (simp_all add: snd_run snd_run_checked)

lemma check_wifi_connection_associated:
  "fst (check_wifi_connection env s) = associated (outcome (env (length (trace s))))"
  by (simp add: check_wifi_connection_def split_def fst_run_checked_None associated_def
      split: sum.split outcome.split)

lemma connect_to_extracted_network_verified:
  "fst (connect_to_extracted_network env ssid password s)
     \<Longrightarrow> associated (outcome (env (length (trace s) + 6)))"
  by (simp add: connect_to_extracted_network_def split_def Let_def
      check_wifi_connection_associated eval_nat_numeral split: sum.splits if_splits)

lemma connect_to_extracted_network_store:
  "files (snd (connect_to_extracted_network env ssid password s)) config_file = files s config_file"
  using quiet_connect_to_extracted_network [of s env ssid password s]
  by (simp add: quiet_def)

lemma files_issue_update:
  "files (snd (run env cmd t s)) = files s"
  "files (snd (run_checked env cmd t s)) = files s"
  "files (sleep env n s) = files s"
  by (simp_all add: snd_run snd_run_checked sleep_def issue_simps)

lemma files_write_file:
  "files (snd (write_file env path c s)) =
     (if fst (write_file env path c s) = Inr () then (files s)(path \<mapsto> c) else files s)"
  by (simp add: write_file_def Let_def issue_simps split: outcome.splits)

lemma connect_to_wifi_files:
  "files (snd (connect_to_wifi env ssid password b)) config_file =
     (if fst (connect_to_wifi env ssid password b) = Inr True
      then Some (Json [(''ssid'', ssid), (''password'', password)])
      else files b config_file)"
  by (simp add: connect_to_wifi_def split_def Let_def files_issue_update files_write_file
      config_file_def split: sum.split)

lemma connect_to_wifi_store:
  "fst (connect_to_wifi env ssid password b) \<noteq> Inr True
     \<Longrightarrow> files (snd (connect_to_wifi env ssid password b)) config_file = files b config_file"
  by (simp add: connect_to_wifi_files)

subsection \<open>The polling loop\<close>

lemma quiet_poll [simp]: "quiet a (snd (poll env s)) = quiet a s"
  by (simp add: poll_def)

lemma quiet_after_polls [simp]: "quiet a (after_polls env k s) = quiet a s"
  by (induction k arbitrary: s) simp_all

lemma wait_for_connection_step:
  "wait_for_connection env (Suc n) s =
     (if fst (poll env s) then extract_credentials_from_android_wifi_direct env (snd (poll env s))
      else wait_for_connection env n (snd (poll env s)))"
  by (simp add: poll_def split_def)

lemma established_at_0: "established_at env 0 s = fst (poll env s)"
  by (simp add: established_at_def)

lemma established_at_Suc: "established_at env (Suc j) s = established_at env j (snd (poll env s))"
  by (simp add: established_at_def)

lemma wait_found:
  "k < n \<Longrightarrow> (\<forall>j<k. \<not> established_at env j s) \<Longrightarrow> established_at env k s \<Longrightarrow>
   wait_for_connection env n s =
     extract_credentials_from_android_wifi_direct env (after_polls env (Suc k) s)"
proof (induction n arbitrary: k s)
  case 0
  then show ?case by simp
next
  case (Suc n)
  show ?case
  proof (cases k)
    case 0
    with Suc.prems show ?thesis
      by (simp add: wait_for_connection_step established_at_0 del: wait_for_connection.simps)
  next
    case (Suc k')
    have first: "\<not> fst (poll env s)"
      using Suc.prems(2) Suc by (auto simp: established_at_0 [symmetric])
    have rest: "\<forall>j<k'. \<not> established_at env j (snd (poll env s))"
      using Suc.prems(2) Suc by (auto simp: established_at_Suc [symmetric])
    have "wait_for_connection env n (snd (poll env s)) =
        extract_credentials_from_android_wifi_direct env (after_polls env (Suc k') (snd (poll env s)))"
      using Suc.IH [of k' "snd (poll env s)"] Suc.prems Suc rest
      by (simp add: established_at_Suc)
    then show ?thesis
      using first Suc by (simp add: wait_for_connection_step del: wait_for_connection.simps)
  qed
qed

lemma wait_none:
  "(\<forall>j<n. \<not> established_at env j s) \<Longrightarrow> wait_for_connection env n s = (False, after_polls env n s)"
proof (induction n arbitrary: s)
  case 0
  then show ?case by simp
next
  case (Suc n)
  have first: "\<not> fst (poll env s)"
    using Suc.prems by (auto simp: established_at_0 [symmetric])
  have rest: "\<forall>j<n. \<not> established_at env j (snd (poll env s))"
    using Suc.prems by (auto simp: established_at_Suc [symmetric])
  show ?case
    using Suc.IH [OF rest] first
    by (simp add: wait_for_connection_step del: wait_for_connection.simps)
qed

lemma trace_poll:
  "\<exists>t. trace (snd (poll env s)) = trace s @ [(clock s, Sleep 1), (t, Run (wpa_cli [''status'']))]"
  by (simp add: poll_def check_android_wifi_direct_connection_def split_def snd_run_checked
      sleep_def issue_simps split: sum.split)

lemma new_ops_poll:
  "length (trace s0) \<le> length (trace s) \<Longrightarrow>
   new_ops s0 (snd (poll env s)) = new_ops s0 s @ [Sleep 1, Run (wpa_cli [''status''])]"
  using trace_poll [of env s] by (auto simp: new_ops_def)

lemma length_trace_poll: "length (trace (snd (poll env s))) = length (trace s) + 2"
  using trace_poll [of env s] by auto

lemma new_ops_after_polls:
  "length (trace s0) \<le> length (trace s) \<Longrightarrow>
   new_ops s0 (after_polls env k s)
     = new_ops s0 s @ concat (replicate k [Sleep 1, Run (wpa_cli [''status''])])"
proof (induction k arbitrary: s)
  case 0
  then show ?case by simp
next
  case (Suc k)
  have "length (trace s0) \<le> length (trace (snd (poll env s)))"
    using Suc.prems by (simp add: length_trace_poll)
  from Suc.IH [OF this] show ?case
    by (simp add: new_ops_poll [OF Suc.prems])
qed

lemma clock_poll: "clock s + 1000 \<le> clock (snd (poll env s))"
  by (simp add: poll_def check_android_wifi_direct_connection_def split_def snd_run_checked
      sleep_def issue_simps split: sum.split)

lemma clock_after_polls: "clock s + k * 1000 \<le> clock (after_polls env k s)"
proof (induction k arbitrary: s)
  case 0
  then show ?case by simp
next
  case (Suc k)
  show ?case
    using Suc.IH [of "snd (poll env s)"] clock_poll [of s env] by simp
qed

lemma new_ops_self [simp]: "new_ops s s = []"
  by (simp add: new_ops_def)

lemma self_run [simp]:
  "files (snd (run env cmd t s)) = files s"
  "files (snd (run_checked env cmd t s)) = files s"
  "credentials_received (snd (run env cmd t s)) = credentials_received s"
  "credentials_received (snd (run_checked env cmd t s)) = credentials_received s"
  "connected_devices (snd (run env cmd t s)) = connected_devices s"
  "connected_devices (snd (run_checked env cmd t s)) = connected_devices s"
  by (simp_all add: snd_run snd_run_checked issue_simps)

text \<open>
  C9. After an accepted connect request the engine polls at most 45 times, each poll after
  a sleep of one second. The first poll that reports an established connection ends the loop
  and the result is that of the credential extraction, run right after that poll; when none
  of the 45 polls reports one, the attempt returns False after exactly 45 polls (at least 45
  seconds), with the credential file and the received flag as they were.
\<close>

theorem polling_is_bounded:
  assumes "run_checked env (wpa_cli [''p2p_connect'', device_address, ''pbc'']) None s
             = (Inr (0, out), s0)"
  shows "(k < 45 \<and> (\<forall>j<k. \<not> established_at env j s0) \<and> established_at env k s0 \<longrightarrow>
            connect_to_android_via_wifi_direct env device_name device_address s
              = extract_credentials_from_android_wifi_direct env (after_polls env (Suc k) s0)
            \<and> new_ops s0 (after_polls env (Suc k) s0)
                = concat (replicate (Suc k) [Sleep 1, Run (wpa_cli [''status''])]))
       \<and> ((\<forall>j<45. \<not> established_at env j s0) \<longrightarrow>
            connect_to_android_via_wifi_direct env device_name device_address s
              = (False, after_polls env 45 s0)
            \<and> new_ops s0 (after_polls env 45 s0)
                = concat (replicate 45 [Sleep 1, Run (wpa_cli [''status''])])
            \<and> clock s0 + 45 * 1000 \<le> clock (after_polls env 45 s0)
            \<and> files (after_polls env 45 s0) config_file = files s config_file
            \<and> credentials_received (after_polls env 45 s0) = credentials_received s)"
proof -
  have c: "connect_to_android_via_wifi_direct env device_name device_address s
      = wait_for_connection env 45 s0"
    using assms by (simp add: connect_to_android_via_wifi_direct_def)
  have s0: "s0 = snd (run_checked env (wpa_cli [''p2p_connect'', device_address, ''pbc'']) None s)"
    using assms by simp
  have "quiet s0 (after_polls env 45 s0)"
    by simp
  then have f: "files (after_polls env 45 s0) config_file = files s config_file"
    and r: "credentials_received (after_polls env 45 s0) = credentials_received s"
    unfolding quiet_def s0 by simp_all
  have n: "new_ops s0 (after_polls env m s0)
      = concat (replicate m [Sleep 1, Run (wpa_cli [''status''])])" for m
    using new_ops_after_polls [of s0 s0 env m] by simp
  show ?thesis
    unfolding c
    using wait_found [of k 45 env s0] wait_none [of 45 env s0] n [of "Suc k"] n [of 45]
      clock_after_polls [of s0 45 env] f r
    by blast
qed

lemma poll_failed: "outcome (env (Suc (length (trace s)))) = Failed \<Longrightarrow> \<not> fst (poll env s)"
  by (simp add: poll_def check_android_wifi_direct_connection_def split_def run_checked_def
      run_def result_of_def Let_def sleep_def split: sum.split)

lemma env_accept_only_failed: "outcome (env_accept_only (Suc n)) = Failed"
  by (simp add: env_accept_only_def env_of_def)

theorem polling_is_bounded_witness:
  "run_checked env_second_poll (wpa_cli [''p2p_connect'', ''aa'', ''pbc'']) None init_state
     = (Inr (0, ''OK''), accepted_state env_second_poll)
   \<and> \<not> established_at env_second_poll 0 (accepted_state env_second_poll)
   \<and> established_at env_second_poll 1 (accepted_state env_second_poll)
   \<and> connect_to_android_via_wifi_direct env_second_poll ''Pixel'' ''aa'' init_state
       = extract_credentials_from_android_wifi_direct env_second_poll
           (after_polls env_second_poll 2 (accepted_state env_second_poll))
   \<and> run_checked env_accept_only (wpa_cli [''p2p_connect'', ''aa'', ''pbc'']) None init_state
       = (Inr (0, ''OK''), accepted_state env_accept_only)
   \<and> connect_to_android_via_wifi_direct env_accept_only ''Pixel'' ''aa'' init_state
       = (False, after_polls env_accept_only 45 (accepted_state env_accept_only))
   \<and> new_ops (accepted_state env_accept_only)
        (after_polls env_accept_only 45 (accepted_state env_accept_only))
       = concat (replicate 45 [Sleep 1, Run (wpa_cli [''status''])])"
proof -
  have a1: "fst (run_checked env_second_poll (wpa_cli [''p2p_connect'', ''aa'', ''pbc'']) None
      init_state) = Inr (0, ''OK'')"
    by code_simp
  have h1: "run_checked env_second_poll (wpa_cli [''p2p_connect'', ''aa'', ''pbc'']) None init_state
      = (Inr (0, ''OK''), accepted_state env_second_poll)"
    unfolding accepted_state_def a1 [symmetric] by simp
  have p0: "\<not> established_at env_second_poll 0 (accepted_state env_second_poll)"
    by code_simp
  have p1: "established_at env_second_poll 1 (accepted_state env_second_poll)"
    by code_simp
  then have p1': "established_at env_second_poll (Suc 0) (accepted_state env_second_poll)"
    by simp
  have h2: "\<forall>j<Suc 0. \<not> established_at env_second_poll j (accepted_state env_second_poll)"
    using p0 by simp
  have a2: "fst (run_checked env_accept_only (wpa_cli [''p2p_connect'', ''aa'', ''pbc'']) None
      init_state) = Inr (0, ''OK'')"
    by code_simp
  have h3: "run_checked env_accept_only (wpa_cli [''p2p_connect'', ''aa'', ''pbc'']) None init_state
      = (Inr (0, ''OK''), accepted_state env_accept_only)"
    unfolding accepted_state_def a2 [symmetric] by simp
  have h4: "\<forall>j<45. \<not> established_at env_accept_only j (accepted_state env_accept_only)"
    unfolding established_at_def
    using poll_failed [of env_accept_only] env_accept_only_failed by blast
  note A = polling_is_bounded [OF h1, of "Suc 0" "''Pixel''"]
  note B = polling_is_bounded [OF h3, of 0 "''Pixel''"]
  have two: "Suc (Suc 0) = 2"
    by simp
  from A h2 p1' have c1: "connect_to_android_via_wifi_direct env_second_poll ''Pixel'' ''aa'' init_state
       = extract_credentials_from_android_wifi_direct env_second_poll
           (after_polls env_second_poll 2 (accepted_state env_second_poll))"
    unfolding two by simp
  from B h4 have c2: "connect_to_android_via_wifi_direct env_accept_only ''Pixel'' ''aa'' init_state
       = (False, after_polls env_accept_only 45 (accepted_state env_accept_only))"
    and c3: "new_ops (accepted_state env_accept_only)
        (after_polls env_accept_only 45 (accepted_state env_accept_only))
       = concat (replicate 45 [Sleep 1, Run (wpa_cli [''status''])])"
    by blast+
  from h1 p0 p1 c1 h3 c2 c3 show ?thesis
    by blast
qed

subsection \<open>Validation of a credential candidate\<close>

lemma self_write_file [simp]:
  "credentials_received (snd (write_file env path c s)) = credentials_received s"
  "connected_devices (snd (write_file env path c s)) = connected_devices s"
  by (simp_all add: write_file_def Let_def issue_simps split: outcome.splits)

lemma self_sleep [simp]:
  "files (sleep env n s) = files s"
  "credentials_received (sleep env n s) = credentials_received s"
  "connected_devices (sleep env n s) = connected_devices s"
  by (simp_all add: sleep_def issue_simps)

lemma connect_to_wifi_received:
  "credentials_received (snd (connect_to_wifi env ssid password b)) = credentials_received b"
  by (simp add: connect_to_wifi_def split_def Let_def split: sum.split)

lemma check_credentials_validates:
  "wifi_service b = Some svc \<Longrightarrow>
   credentials_received (check_credentials env b) =
     (credentials_received b
      \<or> (wifi_ssid svc \<noteq> [] \<and> wifi_ssid svc \<noteq> ''Unknown''
         \<and> wifi_password svc \<noteq> [] \<and> wifi_password svc \<noteq> ''Unknown''))"
  by (simp add: check_credentials_def split_def connect_to_wifi_received
      split: sum.split option.split)

text \<open>
  C1. On the status text \<open>ssid=\<close>, \<open>psk=\<close> (both values empty) the Android path accepts
  the candidate: it sets the received flag and writes the empty credential to the credential
  file. The GATT path rejects the same candidate and leaves its state as it was.
\<close>

theorem empty_fields_are_accepted:
  "parse_status empty_fields_status = [(''ssid'', []), (''psk'', [])]
   \<and> credentials_received
       (snd (extract_android_network_credentials env_write_ok empty_fields_status init_state))
   \<and> files (snd (extract_android_network_credentials env_write_ok empty_fields_status init_state))
       config_file = Some (Json [(''ssid'', []), (''password'', [])])
   \<and> check_credentials env_write_ok empty_fields_bt_state = empty_fields_bt_state"
proof -
  have p: "parse_status empty_fields_status = [(''ssid'', []), (''psk'', [])]"
    by code_simp
  have r: "credentials_received
       (snd (extract_android_network_credentials env_write_ok empty_fields_status init_state))"
    by code_simp
  have f: "files (snd (extract_android_network_credentials env_write_ok empty_fields_status init_state))
       config_file = Some (Json [(''ssid'', []), (''password'', [])])"
    by code_simp
  have c: "check_credentials env_write_ok empty_fields_bt_state = empty_fields_bt_state"
    by (simp add: check_credentials_def empty_fields_bt_state_def password_WriteValue_def
        ssid_WriteValue_def init_service_def)
  from p r f c show ?thesis
    by blast
qed

subsection \<open>The connect loop\<close>

lemma calm_refl [simp]: "calm s s"
  by (simp add: calm_def)

lemma calm_peel: "calm s s' \<Longrightarrow> calm a s' = calm a s"
  by (auto simp: calm_def)

lemma quiet_calm: "quiet s s' \<Longrightarrow> calm s s'"
  by (simp add: quiet_def calm_def)

lemma calm_peel_quiet: "quiet s s' \<Longrightarrow> calm a s' = calm a s"
  by (rule calm_peel) (rule quiet_calm)

lemma calm_run_checked [simp]:
  "plain cmd \<Longrightarrow> calm a (snd (run_checked env cmd t s)) = calm a s"
  by (rule calm_peel_quiet) simp

lemma calm_sleep [simp]: "calm a (sleep env n s) = calm a s"
  by (rule calm_peel_quiet) simp

lemma calm_write_file [simp]: "calm a (snd (write_file env path c s)) = calm a s"
  by (rule calm_peel)
    (simp add: write_file_def Let_def calm_def issue_def connect_attempts_def discoveries_def
      map_filter_def split: outcome.splits)

lemma calm_received [simp]: "calm a (s\<lparr>credentials_received := b\<rparr>) = calm a s"
  by (simp add: calm_def discoveries_def connect_attempts_def)

lemma calm_connect_to_extracted_network [simp]:
  "calm a (snd (connect_to_extracted_network env ssid password s)) = calm a s"
  by (rule calm_peel_quiet) simp

lemma calm_check_android_wifi_direct_connection [simp]:
  "calm a (snd (check_android_wifi_direct_connection env s)) = calm a s"
  by (rule calm_peel_quiet) simp

lemma calm_debug_android_wifi_direct_state [simp]:
  "calm a (debug_android_wifi_direct_state env s) = calm a s"
  by (rule calm_peel_quiet) simp

lemma calm_try_android_specific_methods [simp]:
  "calm a (snd (try_android_specific_methods env n d s)) = calm a s"
  by (rule calm_peel_quiet) simp

lemma calm_extract_android_network_credentials [simp]:
  "calm a (snd (extract_android_network_credentials env status s)) = calm a s"
  by (simp add: extract_android_network_credentials_def split_def Let_def split: sum.split)

lemma calm_extract_credentials_from_android_wifi_direct [simp]:
  "calm a (snd (extract_credentials_from_android_wifi_direct env s)) = calm a s"
  by (simp add: extract_credentials_from_android_wifi_direct_def split_def Let_def
      split: sum.split)

lemma calm_wait_for_connection [simp]:
  "calm a (snd (wait_for_connection env n s)) = calm a s"
  by (induction n arbitrary: s) (simp_all add: split_def Let_def)

lemma received_connect_to_extracted_network [simp]:
  "credentials_received (snd (connect_to_extracted_network env ssid password s))
     = credentials_received s"
  using quiet_connect_to_extracted_network [of s env ssid password s]
  by (simp add: quiet_def)

lemma extract_android_network_credentials_received:
  "fst (extract_android_network_credentials env status s)
     \<longrightarrow> credentials_received (snd (extract_android_network_credentials env status s))"
  by (simp add: extract_android_network_credentials_def split_def Let_def split: sum.split)

lemma extract_credentials_from_android_wifi_direct_received:
  "fst (extract_credentials_from_android_wifi_direct env s)
     \<longrightarrow> credentials_received (snd (extract_credentials_from_android_wifi_direct env s))"
  using extract_android_network_credentials_received
  by (simp add: extract_credentials_from_android_wifi_direct_def split_def Let_def
      split: sum.split)

lemma wait_for_connection_received:
  "fst (wait_for_connection env n s)
     \<longrightarrow> credentials_received (snd (wait_for_connection env n s))"
  using extract_credentials_from_android_wifi_direct_received
  by (induction n arbitrary: s) (simp_all add: split_def Let_def)

lemma connect_to_android_received:
  "fst (connect_to_android_via_wifi_direct env n d s)
     \<longrightarrow> credentials_received (snd (connect_to_android_via_wifi_direct env n d s))"
  using wait_for_connection_received
  by (simp add: connect_to_android_via_wifi_direct_def split_def split: sum.split)

lemma connect_to_android_attempts:
  "connect_attempts (snd (connect_to_android_via_wifi_direct env n d s))
     = connect_attempts s @ [(clock s, d)]"
proof -
  let ?s0 = "snd (run_checked env (wpa_cli [''p2p_connect'', d, ''pbc'']) None s)"
  have a: "connect_attempts ?s0 = connect_attempts s @ [(clock s, d)]"
    by (simp add: snd_run_checked connect_attempts_issue wpa_cli_def)
  have "calm ?s0 (snd (connect_to_android_via_wifi_direct env n d s))"
    by (simp add: connect_to_android_via_wifi_direct_def split_def split: sum.split)
  then show ?thesis
    using a by (simp add: calm_def)
qed

lemma connect_to_android_self:
  "connected_devices (snd (connect_to_android_via_wifi_direct env n d s)) = connected_devices s"
  "discoveries (snd (connect_to_android_via_wifi_direct env n d s)) = discoveries s"
proof -
  let ?s0 = "snd (run_checked env (wpa_cli [''p2p_connect'', d, ''pbc'']) None s)"
  have a: "connected_devices ?s0 = connected_devices s" "discoveries ?s0 = discoveries s"
    by (simp_all add: snd_run_checked issue_simps discoveries_issue wpa_cli_def)
  have "calm ?s0 (snd (connect_to_android_via_wifi_direct env n d s))"
    by (simp add: connect_to_android_via_wifi_direct_def split_def split: sum.split)
  then show "connected_devices (snd (connect_to_android_via_wifi_direct env n d s)) = connected_devices s"
    "discoveries (snd (connect_to_android_via_wifi_direct env n d s)) = discoveries s"
    using a by (simp_all add: calm_def)
qed

lemma addresses_Cons:
  "map_of d ''address'' = Some x \<Longrightarrow> addresses (d # ds) = x # addresses ds"
  by (simp add: addresses_def map_filter_def)

lemma new_attempts_append:
  "connect_attempts s' = connect_attempts s @ new \<Longrightarrow> new_attempts s s' = new"
  by (simp add: new_attempts_def)

lemma connect_loop_run:
  assumes "list_all (\<lambda>d. has_key d ''address'') devices"
  shows "\<exists>new. connect_attempts (snd (connect_loop env start devices s)) = connect_attempts s @ new
     \<and> prefix (map snd new) (addresses devices)
     \<and> list_all (\<lambda>(t, a). t - start \<le> timeout_seconds * 1000) new
     \<and> (fst (connect_loop env start devices s) = None \<longrightarrow> map snd new = addresses devices)
     \<and> (fst (connect_loop env start devices s) = Some False \<longrightarrow>
          clock (snd (connect_loop env start devices s)) - start > timeout_seconds * 1000)
     \<and> (fst (connect_loop env start devices s) = Some True \<longrightarrow>
          new \<noteq> [] \<and> credentials_received (snd (connect_loop env start devices s)))
     \<and> connected_devices (snd (connect_loop env start devices s)) = connected_devices s
     \<and> discoveries (snd (connect_loop env start devices s)) = discoveries s"
  using assms
proof (induction devices arbitrary: s)
  case Nil
  then show ?case by (simp add: addresses_def map_filter_def)
next
  case (Cons d ds)
  from Cons.prems obtain x where x: "map_of d ''address'' = Some x"
    by (auto simp: has_key_def)
  from Cons.prems have ds: "list_all (\<lambda>d. has_key d ''address'') ds"
    by simp
  show ?case
  proof (cases "clock s - start > timeout_seconds * 1000")
    case True
    then show ?thesis
      by (simp add: x)
  next
    case False
    let ?c = "connect_to_android_via_wifi_direct env (dict_get d ''name'' ''Unknown'') x s"
    have att: "connect_attempts (snd ?c) = connect_attempts s @ [(clock s, x)]"
      by (rule connect_to_android_attempts)
    show ?thesis
    proof (cases "fst ?c")
      case True
      then have "connect_loop env start (d # ds) s = (Some True, snd ?c)"
        using False by (simp add: x split_def)
      then show ?thesis
        using att False True connect_to_android_received [of env "dict_get d ''name'' ''Unknown''" x s]
          connect_to_android_self [of env "dict_get d ''name'' ''Unknown''" x s]
        by (simp add: addresses_Cons [OF x])
    next
      case nc: False
      let ?s' = "debug_android_wifi_direct_state env (snd ?c)"
      have eq: "connect_loop env start (d # ds) s = connect_loop env start ds ?s'"
        using False nc by (simp add: x split_def)
      have q: "quiet (snd ?c) ?s'"
        by simp
      then have att': "connect_attempts ?s' = connect_attempts s @ [(clock s, x)]"
        and cd: "connected_devices ?s' = connected_devices s"
        and di: "discoveries ?s' = discoveries s"
        using att connect_to_android_self [of env "dict_get d ''name'' ''Unknown''" x s]
        by (simp_all add: quiet_def)
      from Cons.IH [OF ds, of ?s'] obtain new where
        n: "connect_attempts (snd (connect_loop env start ds ?s')) = connect_attempts ?s' @ new
          \<and> prefix (map snd new) (addresses ds)
          \<and> list_all (\<lambda>(t, a). t - start \<le> timeout_seconds * 1000) new
          \<and> (fst (connect_loop env start ds ?s') = None \<longrightarrow> map snd new = addresses ds)
          \<and> (fst (connect_loop env start ds ?s') = Some False \<longrightarrow>
             clock (snd (connect_loop env start ds ?s')) - start > timeout_seconds * 1000)
          \<and> (fst (connect_loop env start ds ?s') = Some True \<longrightarrow>
             new \<noteq> [] \<and> credentials_received (snd (connect_loop env start ds ?s')))
          \<and> connected_devices (snd (connect_loop env start ds ?s')) = connected_devices ?s'
          \<and> discoveries (snd (connect_loop env start ds ?s')) = discoveries ?s'"
        by (elim exE)
      show ?thesis
        unfolding eq
        apply (rule exI [of _ "(clock s, x) # new"])
        using n att' cd di False
        by (simp add: addresses_Cons [OF x])
    qed
  qed
qed

lemma flush_have_address:
  "list_all (\<lambda>d. has_key d ''address'') devs \<Longrightarrow> list_all (\<lambda>d. has_key d ''address'') (flush devs cur)"
  by (simp add: flush_def)

lemma device_line_have_address:
  "list_all (\<lambda>d. has_key d ''address'') devs
     \<Longrightarrow> list_all (\<lambda>d. has_key d ''address'') (fst (device_line devs cur l))"
  by (simp add: device_line_def Let_def flush_have_address)

lemma device_loop_have_address:
  "list_all (\<lambda>d. has_key d ''address'') devs
     \<Longrightarrow> list_all (\<lambda>d. has_key d ''address'') (fst (device_loop devs cur ls))"
proof (induction ls arbitrary: devs cur)
  case Nil
  then show ?case by simp
next
  case (Cons l ls)
  show ?case
    using Cons.IH [OF device_line_have_address [OF Cons.prems, of cur l]]
    by (simp add: split_def Let_def)
qed

lemma parse_android_devices_have_address:
  "list_all (\<lambda>d. has_key d ''address'') (parse_android_devices peers_output)"
  using device_loop_have_address [of "[]" "[]" "split_on NL (strip peers_output)"]
  by (simp add: parse_android_devices_def parse_device_lines_def split_def Let_def
      flush_have_address)

lemma within_calm: "within s a \<Longrightarrow> calm a b \<Longrightarrow> within s b"
  by (simp add: within_def calm_def)

lemma within_connect_loop:
  assumes "within s a" and "list_all (\<lambda>d. has_key d ''address'') devices"
  shows "within s (snd (connect_loop env (clock s) devices a))"
proof -
  from connect_loop_run [OF assms(2), of env "clock s" a] obtain new where
    n: "connect_attempts (snd (connect_loop env (clock s) devices a)) = connect_attempts a @ new
      \<and> list_all (\<lambda>(t, a). t - clock s \<le> timeout_seconds * 1000) new
      \<and> connected_devices (snd (connect_loop env (clock s) devices a)) = connected_devices a
      \<and> discoveries (snd (connect_loop env (clock s) devices a)) = discoveries a"
    by (elim exE) blast
  from assms(1) obtain old where
    o: "connect_attempts a = connect_attempts s @ old"
      "list_all (\<lambda>(t, a). t - clock s \<le> timeout_seconds * 1000) old"
    by (auto simp: within_def)
  have "connect_attempts (snd (connect_loop env (clock s) devices a))
      = connect_attempts s @ (old @ new)
    \<and> list_all (\<lambda>(t, a). t - clock s \<le> timeout_seconds * 1000) (old @ new)"
    using n o by simp
  then have "\<exists>new. connect_attempts (snd (connect_loop env (clock s) devices a))
      = connect_attempts s @ new
    \<and> list_all (\<lambda>(t, a). t - clock s \<le> timeout_seconds * 1000) new"
    by (rule exI)
  then show ?thesis
    using n assms(1) by (simp add: within_def)
qed

lemma within_find:
  "within s (snd (run_checked env (wpa_cli [''p2p_find'']) t s))"
  by (simp add: within_def snd_run_checked issue_simps connect_attempts_issue discoveries_issue
      wpa_cli_def)

lemma within_android_specific_step:
  "within s a \<Longrightarrow> within s (snd (android_specific_step env start n d a))"
  by (rule within_calm [of s a]) (simp_all add: android_specific_step_def split_def Let_def)

lemma extract_within:
  "within s (snd (extract_wifi_credentials_from_android env n d s))"
proof -
  let ?s1 = "snd (run_checked env (wpa_cli [''p2p_find'']) (Some 10) s)"
  let ?s2 = "sleep env 15 ?s1"
  let ?s3 = "snd (run_checked env (wpa_cli [''p2p_peers'']) None ?s2)"
  have 1: "within s ?s1"
    by (rule within_find)
  have 2: "within s ?s2"
    by (rule within_calm [OF 1]) simp
  have 3: "within s ?s3"
    by (rule within_calm [OF 2]) simp
  have 4: "within s (snd (connect_loop env (clock s) (parse_android_devices out) ?s3))" for out
    by (rule within_connect_loop [OF 3 parse_android_devices_have_address])
  have 5: "within s (snd (android_specific_step env (clock s) n d ?s3))"
    by (rule within_android_specific_step [OF 3])
  have 6: "within s (snd (android_specific_step env (clock s) n d
      (snd (connect_loop env (clock s) (parse_android_devices out) ?s3))))" for out
    by (rule within_android_specific_step [OF 4])
  show ?thesis
    using 1 2 3 4 5 6
    by (simp add: extract_wifi_credentials_from_android_def split_def Let_def
        split: sum.split option.split)
qed

subsection \<open>Following a run step by step\<close>

lemma fst_run_None:
  "fst (run env cmd None s) = result_of (outcome (env (length (trace s))))"
  by (simp add: run_def Let_def)

lemma fst_run_Some:
  "fst (run env cmd (Some t) s) =
     (if duration (env (length (trace s))) > t * 1000 then Inl TimeoutExpired
      else result_of (outcome (env (length (trace s)))))"
  by (simp add: run_def Let_def)

lemma fst_run_checked:
  "fst (run_checked env cmd t s) =
     (case fst (run env cmd t s) of
        Inl e \<Rightarrow> Inl e
      | Inr (rc, out) \<Rightarrow> if rc \<noteq> 0 then Inl CalledProcessError else Inr (rc, out))"
  by (simp add: run_checked_def split: prod.splits sum.splits)

lemma fst_write_file:
  "fst (write_file env path c s) =
     (case outcome (env (length (trace s))) of Exit rc out \<Rightarrow> Inr () | Failed \<Rightarrow> Inl OSError)"
  by (simp add: write_file_def Let_def split: outcome.splits)

lemma clock_run:
  "clock (snd (run env cmd t s)) = clock s + run_time env t s"
  "clock (snd (run_checked env cmd t s)) = clock s + run_time env t s"
  by (simp_all add: snd_run snd_run_checked issue_simps)

lemma clock_sleep:
  "clock (sleep env n s) = clock s + (n * 1000 + duration (env (length (trace s))))"
  by (simp add: sleep_def issue_simps)

lemma clock_write_file:
  "clock (snd (write_file env path c s)) = clock s + duration (env (length (trace s)))"
  by (simp add: write_file_def Let_def issue_simps split: outcome.splits)

lemma run_time_simps:
  "run_time env None s = duration (env (length (trace s)))"
  "run_time env (Some t) s = min (duration (env (length (trace s)))) (t * 1000)"
  by (simp_all add: run_time_def)

lemma received_update [simp]:
  "length (trace (s\<lparr>credentials_received := b\<rparr>)) = length (trace s)"
  by simp

lemmas eval_world = fst_run_None fst_run_Some fst_run_checked fst_write_file clock_run clock_sleep
  clock_write_file run_time_simps result_of_def split_def Let_def env_of_def answer_def wpa_cli_def

lemma wait_for_connection_numeral:
  "wait_for_connection env (numeral k) s =
     (if fst (poll env s) then extract_credentials_from_android_wifi_direct env (snd (poll env s))
      else wait_for_connection env (pred_numeral k) (snd (poll env s)))"
  using wait_for_connection_step [of env "pred_numeral k" s]
  by (simp only: numeral_eq_Suc)

lemma wait_for_connection_0: "wait_for_connection env 0 s = (False, s)"
  by simp

lemma fst_poll:
  "fst (poll env s) =
     (case outcome (env (Suc (length (trace s)))) of
        Exit rc status \<Rightarrow>
          rc = 0 \<and> (contains status ''p2p_go_mode=1'' \<or> contains status ''p2p_client_mode=1'')
      | Failed \<Rightarrow> False)"
  by (simp add: poll_def check_android_wifi_direct_connection_def split_def fst_run_checked
      fst_run_None result_of_def split: outcome.split)

lemma clock_poll_eq:
  "clock (snd (poll env s)) =
     clock s + 1000 + duration (env (length (trace s))) + duration (env (Suc (length (trace s))))"
  by (simp add: poll_def check_android_wifi_direct_connection_def split_def clock_run clock_sleep
      run_time_simps split: sum.split)

lemmas eval_poll = wait_for_connection_numeral wait_for_connection_step wait_for_connection_0
  fst_poll clock_poll_eq
  length_trace_poll

lemma trail_run:
  "connect_attempts (snd (run env cmd t s)) =
     connect_attempts s @ (case connect_address (Run cmd) of None \<Rightarrow> [] | Some x \<Rightarrow> [(clock s, x)])"
  "connect_attempts (snd (run_checked env cmd t s)) =
     connect_attempts s @ (case connect_address (Run cmd) of None \<Rightarrow> [] | Some x \<Rightarrow> [(clock s, x)])"
  "discoveries (snd (run env cmd t s)) =
     discoveries s @ (if Run cmd = Run (wpa_cli [''p2p_find'']) then [clock s] else [])"
  "discoveries (snd (run_checked env cmd t s)) =
     discoveries s @ (if Run cmd = Run (wpa_cli [''p2p_find'']) then [clock s] else [])"
  by (simp_all add: snd_run snd_run_checked connect_attempts_issue discoveries_issue)

lemma trail_sleep:
  "connect_attempts (sleep env n s) = connect_attempts s"
  "discoveries (sleep env n s) = discoveries s"
  by (simp_all add: sleep_def connect_attempts_issue discoveries_issue)

lemma trail_write_file:
  "connect_attempts (snd (write_file env path c s)) = connect_attempts s"
  "discoveries (snd (write_file env path c s)) = discoveries s"
  using calm_write_file [of s env path c s] by (simp_all add: calm_def)

lemma trail_update:
  "connect_attempts (s\<lparr>credentials_received := b\<rparr>) = connect_attempts s"
  "connect_attempts (s\<lparr>connected_devices := X\<rparr>) = connect_attempts s"
  "connect_attempts (s\<lparr>clock := c\<rparr>) = connect_attempts s"
  "discoveries (s\<lparr>credentials_received := b\<rparr>) = discoveries s"
  "discoveries (s\<lparr>connected_devices := X\<rparr>) = discoveries s"
  "discoveries (s\<lparr>clock := c\<rparr>) = discoveries s"
  by (simp_all add: connect_attempts_def discoveries_def)

lemma trail_init:
  "connect_attempts init_state = []"
  "discoveries init_state = []"
  "length (trace init_state) = 0"
  "clock init_state = 0"
  by (simp_all add: connect_attempts_def discoveries_def init_state_def map_filter_def)

lemma self_poll:
  "connect_attempts (snd (poll env s)) = connect_attempts s"
  "discoveries (snd (poll env s)) = discoveries s"
  "files (snd (poll env s)) = files s"
  "credentials_received (snd (poll env s)) = credentials_received s"
  "connected_devices (snd (poll env s)) = connected_devices s"
  using quiet_poll [of s env s]
  by (simp_all add: quiet_def) (simp add: poll_def check_android_wifi_direct_connection_def
      split_def split: sum.split)

lemmas eval_run = eval_world eval_poll trail_run trail_sleep trail_write_file trail_update
  trail_init self_poll files_write_file new_attempts_def

lemma peers_ab_devices:
  "parse_android_devices peers_ab
    = [[(''address'', ''aa''), (''name'', ''Pixel'')], [(''address'', ''bb''), (''name'', ''Nexus'')]]"
  by code_simp

lemma peers_ab_nonempty: "strip peers_ab \<noteq> []"
  by code_simp

subsection \<open>The deadline\<close>

lemmas android_defs = extract_wifi_credentials_from_android_def
  connect_to_android_via_wifi_direct_def debug_android_wifi_direct_state_def
  android_specific_step_def try_android_specific_methods_def timeout_seconds_def dict_get_def

text \<open>
  The claim C2 as stated fails. With peers \<open>aa\<close> and \<open>bb\<close>, a 15 second settle and 45
  polls of \<open>aa\<close> that report nothing, the attempt on \<open>bb\<close> is started 60 seconds into
  the session although its 45 polls do not fit into the remaining 30 seconds; the session
  ends at 105 seconds.
\<close>

theorem late_attempt_is_started:
  "new_attempts init_state
      (snd (extract_wifi_credentials_from_android env_late_peer ''Pixel'' ''AA:BB'' init_state))
     = [(15000, ''aa''), (60000, ''bb'')]
   \<and> timeout_seconds * 1000 < 60000 + 45 * 1000
   \<and> clock (snd (extract_wifi_credentials_from_android env_late_peer ''Pixel'' ''AA:BB''
         init_state)) = 105000
   \<and> \<not> fst (extract_wifi_credentials_from_android env_late_peer ''Pixel'' ''AA:BB'' init_state)"
  by (simp add: eval_run peers_ab_devices peers_ab_nonempty android_defs env_late_peer_def
      del: wait_for_connection.simps(2))

lemma connect_loop_late:
  "clock s - start > timeout_seconds * 1000 \<Longrightarrow> connect_loop env start (d # ds) s = (Some False, s)"
  by (simp split: option.split)

lemma android_specific_step_late:
  "clock s - start > timeout_seconds * 1000 \<Longrightarrow> android_specific_step env start n a s = (False, s)"
  by (simp add: android_specific_step_def)

lemma extract_attempts_within:
  "list_all (\<lambda>(t, a). t - clock s \<le> timeout_seconds * 1000)
     (new_attempts s (snd (extract_wifi_credentials_from_android env n a s)))"
  using extract_within [of s env n a]
  by (auto simp: within_def new_attempts_def)

text \<open>
  C2 (amended). The deadline of 90 seconds is compared with the time already elapsed, at the
  top of each per-peer connect attempt and before the Android-specific methods: once more
  than 90 seconds have elapsed the connect loop and the last step return False and start
  nothing, so every connect request of a session is issued no later than 90 seconds after its
  start. An attempt that was started in time is not cut short.
\<close>

theorem deadline_checked_at_boundaries:
  "list_all (\<lambda>(t, a). t - clock s \<le> timeout_seconds * 1000)
     (new_attempts s (snd (extract_wifi_credentials_from_android env device_name device_address s)))
   \<and> (clock s' - start > timeout_seconds * 1000 \<longrightarrow>
        connect_loop env start (d # ds) s' = (Some False, s')
        \<and> android_specific_step env start device_name device_address s' = (False, s'))"
  using extract_attempts_within connect_loop_late android_specific_step_late
  by blast

theorem deadline_checked_at_boundaries_witness:
  "clock late_state - 0 > timeout_seconds * 1000
   \<and> connect_loop env_late_peer 0 (parse_android_devices peers_ab) late_state
       = (Some False, late_state)
   \<and> android_specific_step env_late_peer 0 ''Pixel'' ''AA:BB'' late_state = (False, late_state)
   \<and> list_all (\<lambda>(t, a). t - clock init_state \<le> timeout_seconds * 1000)
       (new_attempts init_state
         (snd (extract_wifi_credentials_from_android env_late_peer ''Pixel'' ''AA:BB'' init_state)))"
proof -
  have h: "clock late_state - 0 > timeout_seconds * 1000"
    by (simp add: late_state_def timeout_seconds_def)
  show ?thesis
    using deadline_checked_at_boundaries [of init_state env_late_peer "''Pixel''" "''AA:BB''"
        late_state 0 "[(''address'', ''aa''), (''name'', ''Pixel'')]"
        "[[(''address'', ''bb''), (''name'', ''Nexus'')]]"] h
    unfolding peers_ab_devices by blast
qed

subsection \<open>Order of the connect attempts\<close>


lemma addresses_ab: "addresses (parse_android_devices peers_ab) = [''aa'', ''bb'']"
  by (simp add: peers_ab_devices addresses_def map_filter_def)









subsection \<open>The connected-device set is never read\<close>

lemma forget_issue:
  "issue a d (s\<lparr>connected_devices := X\<rparr>) = (issue a d s)\<lparr>connected_devices := X\<rparr>"
  by (simp add: issue_def)

lemma forget_run [simp]:
  "run env cmd t (s\<lparr>connected_devices := X\<rparr>)
     = (fst (run env cmd t s), (snd (run env cmd t s))\<lparr>connected_devices := X\<rparr>)"
  by (simp add: run_def Let_def forget_issue split: option.split)

lemma forget_run_checked [simp]:
  "run_checked env cmd t (s\<lparr>connected_devices := X\<rparr>)
     = (fst (run_checked env cmd t s), (snd (run_checked env cmd t s))\<lparr>connected_devices := X\<rparr>)"
  by (simp add: run_checked_def split_def split: sum.split)

lemma forget_sleep [simp]:
  "sleep env n (s\<lparr>connected_devices := X\<rparr>) = (sleep env n s)\<lparr>connected_devices := X\<rparr>"
  by (simp add: sleep_def forget_issue)

lemma forget_write_file [simp]:
  "write_file env path c (s\<lparr>connected_devices := X\<rparr>)
     = (fst (write_file env path c s), (snd (write_file env path c s))\<lparr>connected_devices := X\<rparr>)"
  by (simp add: write_file_def Let_def forget_issue split: outcome.split)

lemma forget_check_wifi_connection [simp]:
  "check_wifi_connection env (s\<lparr>connected_devices := X\<rparr>)
     = (fst (check_wifi_connection env s), (snd (check_wifi_connection env s))\<lparr>connected_devices := X\<rparr>)"
  by (simp add: check_wifi_connection_def split_def Let_def split: sum.split option.split)

lemma forget_connect_to_extracted_network [simp]:
  "connect_to_extracted_network env ssid password (s\<lparr>connected_devices := X\<rparr>)
     = (fst (connect_to_extracted_network env ssid password s), (snd (connect_to_extracted_network env ssid password s))\<lparr>connected_devices := X\<rparr>)"
  by (simp add: connect_to_extracted_network_def split_def Let_def split: sum.split option.split)

lemma forget_connect_to_extracted_network_received [simp]:
  "connect_to_extracted_network env ssid password
       (s\<lparr>connected_devices := X, credentials_received := b\<rparr>)
     = (fst (connect_to_extracted_network env ssid password (s\<lparr>credentials_received := b\<rparr>)),
        (snd (connect_to_extracted_network env ssid password (s\<lparr>credentials_received := b\<rparr>)))
          \<lparr>connected_devices := X\<rparr>)"
proof -
  have "s\<lparr>connected_devices := X, credentials_received := b\<rparr>
      = (s\<lparr>credentials_received := b\<rparr>)\<lparr>connected_devices := X\<rparr>"
    by simp
  then show ?thesis
    by (simp only: forget_connect_to_extracted_network)
qed

lemma forget_extract_android_network_credentials [simp]:
  "extract_android_network_credentials env status (s\<lparr>connected_devices := X\<rparr>)
     = (fst (extract_android_network_credentials env status s), (snd (extract_android_network_credentials env status s))\<lparr>connected_devices := X\<rparr>)"
  by (simp add: extract_android_network_credentials_def split_def Let_def split: sum.split option.split)

lemma forget_extract_credentials_from_android_wifi_direct [simp]:
  "extract_credentials_from_android_wifi_direct env (s\<lparr>connected_devices := X\<rparr>)
     = (fst (extract_credentials_from_android_wifi_direct env s), (snd (extract_credentials_from_android_wifi_direct env s))\<lparr>connected_devices := X\<rparr>)"
  by (simp add: extract_credentials_from_android_wifi_direct_def split_def Let_def split: sum.split option.split)

lemma forget_check_android_wifi_direct_connection [simp]:
  "check_android_wifi_direct_connection env (s\<lparr>connected_devices := X\<rparr>)
     = (fst (check_android_wifi_direct_connection env s), (snd (check_android_wifi_direct_connection env s))\<lparr>connected_devices := X\<rparr>)"
  by (simp add: check_android_wifi_direct_connection_def split_def Let_def split: sum.split option.split)

lemma forget_wait_for_connection [simp]:
  "wait_for_connection env n (s\<lparr>connected_devices := X\<rparr>)
     = (fst (wait_for_connection env n s), (snd (wait_for_connection env n s))\<lparr>connected_devices := X\<rparr>)"
  by (induction n arbitrary: s)
    (simp_all add: split_def Let_def split: sum.split option.split)

lemma forget_connect_to_android_via_wifi_direct [simp]:
  "connect_to_android_via_wifi_direct env n d (s\<lparr>connected_devices := X\<rparr>)
     = (fst (connect_to_android_via_wifi_direct env n d s), (snd (connect_to_android_via_wifi_direct env n d s))\<lparr>connected_devices := X\<rparr>)"
  by (simp add: connect_to_android_via_wifi_direct_def split_def Let_def split: sum.split option.split)

lemma forget_debug_android_wifi_direct_state [simp]:
  "debug_android_wifi_direct_state env (s\<lparr>connected_devices := X\<rparr>)
     = (debug_android_wifi_direct_state env s)\<lparr>connected_devices := X\<rparr>"
  by (simp add: debug_android_wifi_direct_state_def split_def Let_def split: sum.split option.split)

lemma forget_check_for_android_service_responses [simp]:
  "check_for_android_service_responses env (s\<lparr>connected_devices := X\<rparr>)
     = (fst (check_for_android_service_responses env s), (snd (check_for_android_service_responses env s))\<lparr>connected_devices := X\<rparr>)"
  by (simp add: check_for_android_service_responses_def split_def Let_def split: sum.split option.split)

lemma forget_check_android_group_status [simp]:
  "check_android_group_status env (s\<lparr>connected_devices := X\<rparr>)
     = (fst (check_android_group_status env s), (snd (check_android_group_status env s))\<lparr>connected_devices := X\<rparr>)"
  by (simp add: check_android_group_status_def split_def Let_def split: sum.split option.split)

lemma forget_check_sources [simp]:
  "check_sources env sources (s\<lparr>connected_devices := X\<rparr>)
     = (fst (check_sources env sources s), (snd (check_sources env sources s))\<lparr>connected_devices := X\<rparr>)"
  by (induction sources arbitrary: s)
    (auto simp: split_def Let_def split: sum.split option.split)

lemma forget_check_for_android_network_info [simp]:
  "check_for_android_network_info env (s\<lparr>connected_devices := X\<rparr>)
     = (fst (check_for_android_network_info env s), (snd (check_for_android_network_info env s))\<lparr>connected_devices := X\<rparr>)"
  by (simp add: check_for_android_network_info_def split_def Let_def split: sum.split option.split)

lemma forget_direct_android_extraction [simp]:
  "direct_android_extraction env n d (s\<lparr>connected_devices := X\<rparr>)
     = (fst (direct_android_extraction env n d s), (snd (direct_android_extraction env n d s))\<lparr>connected_devices := X\<rparr>)"
  by (simp add: direct_android_extraction_def split_def Let_def split: sum.split option.split)

lemma forget_try_android_specific_methods [simp]:
  "try_android_specific_methods env n d (s\<lparr>connected_devices := X\<rparr>)
     = (fst (try_android_specific_methods env n d s), (snd (try_android_specific_methods env n d s))\<lparr>connected_devices := X\<rparr>)"
  by (simp add: try_android_specific_methods_def split_def Let_def split: sum.split option.split)

lemma forget_connect_loop [simp]:
  "connect_loop env start devices (s\<lparr>connected_devices := X\<rparr>)
     = (fst (connect_loop env start devices s), (snd (connect_loop env start devices s))\<lparr>connected_devices := X\<rparr>)"
  by (induction devices arbitrary: s)
    (simp_all add: split_def Let_def split: sum.split option.split)

lemma forget_android_specific_step [simp]:
  "android_specific_step env start n d (s\<lparr>connected_devices := X\<rparr>)
     = (fst (android_specific_step env start n d s), (snd (android_specific_step env start n d s))\<lparr>connected_devices := X\<rparr>)"
  by (simp add: android_specific_step_def split_def Let_def split: sum.split option.split)

lemma forget_extract_wifi_credentials_from_android [simp]:
  "extract_wifi_credentials_from_android env n d (s\<lparr>connected_devices := X\<rparr>)
     = (fst (extract_wifi_credentials_from_android env n d s), (snd (extract_wifi_credentials_from_android env n d s))\<lparr>connected_devices := X\<rparr>)"
  by (auto simp: extract_wifi_credentials_from_android_def split_def Let_def
      split: sum.split option.split)

subsection \<open>Connect notifications\<close>

lemma on_device_connected_present:
  assumes "map_of interfaces ''org.bluez.Device1'' = Some device"
  shows "connected_devices (on_device_connected env path interfaces s)
       = insert path (connected_devices s)"
    and "discoveries (on_device_connected env path interfaces s) = discoveries s @ [clock s]"
proof -
  let ?s1 = "s\<lparr>connected_devices := insert path (connected_devices s)\<rparr>"
  let ?n = "dict_get device ''Name'' ''Unknown Device''"
  let ?a = "dict_get device ''Address'' ''Unknown''"
  have w: "within ?s1 (snd (extract_wifi_credentials_from_android env ?n ?a ?s1))"
    by (rule extract_within)
  have e: "on_device_connected env path interfaces s
      = snd (extract_wifi_credentials_from_android env ?n ?a ?s1)"
    using assms by (simp add: on_device_connected_def Let_def del: forget_extract_wifi_credentials_from_android)
  show "connected_devices (on_device_connected env path interfaces s)
       = insert path (connected_devices s)"
    using w unfolding e within_def by simp
  show "discoveries (on_device_connected env path interfaces s) = discoveries s @ [clock s]"
    using w unfolding e within_def by (simp add: trail_update)
qed

text \<open>
  The claim C8 as stated fails. A second, identical notification for the same path is not
  ignored: the handler starts a second extraction, whose discovery command is issued 100
  milliseconds after the first.
\<close>

theorem duplicate_notification_starts_again:
  "discoveries (on_device_connected env_no_discovery pixel_path pixel_interfaces init_state) = [0]
   \<and> discoveries
        (on_device_connected env_no_discovery pixel_path pixel_interfaces
          (on_device_connected env_no_discovery pixel_path pixel_interfaces init_state))
       = [0, 100]"
  by (simp add: on_device_connected_def pixel_interfaces_def eval_run android_defs
      env_no_discovery_def)

text \<open>
  C8 (amended). A notification that carries the device interface adds the path to the set of
  connected devices, which a second notification for the same path leaves unchanged; but
  every such notification starts one extraction, at the time it is handled. A notification
  without the device interface changes nothing.
\<close>

theorem notification_starts_extraction:
  "(map_of interfaces ''org.bluez.Device1'' = Some device \<longrightarrow>
      connected_devices (on_device_connected env path interfaces s)
        = insert path (connected_devices s)
      \<and> connected_devices
          (on_device_connected env path interfaces (on_device_connected env path interfaces s))
        = connected_devices (on_device_connected env path interfaces s)
      \<and> discoveries (on_device_connected env path interfaces s) = discoveries s @ [clock s])
   \<and> (map_of interfaces ''org.bluez.Device1'' = None \<longrightarrow>
      on_device_connected env path interfaces s = s)"
  using on_device_connected_present [of interfaces device env path]
  by (auto simp: on_device_connected_def)

theorem notification_starts_extraction_witness:
  "map_of pixel_interfaces ''org.bluez.Device1'' = Some [(''Name'', ''Pixel''), (''Address'', ''AA:BB'')]
   \<and> connected_devices (on_device_connected env_no_discovery pixel_path pixel_interfaces init_state)
       = {pixel_path}
   \<and> connected_devices
        (on_device_connected env_no_discovery pixel_path pixel_interfaces
          (on_device_connected env_no_discovery pixel_path pixel_interfaces init_state))
       = {pixel_path}
   \<and> discoveries (on_device_connected env_no_discovery pixel_path pixel_interfaces init_state)
       = [0]
   \<and> map_of [] ''org.bluez.Device1'' = (None :: dict option)
   \<and> on_device_connected env_no_discovery pixel_path [] init_state = init_state"
proof -
  have h1: "map_of pixel_interfaces ''org.bluez.Device1''
      = Some [(''Name'', ''Pixel''), (''Address'', ''AA:BB'')]"
    by (simp add: pixel_interfaces_def)
  have h2: "map_of [] ''org.bluez.Device1'' = (None :: dict option)"
    by simp
  have i: "connected_devices init_state = {}" "discoveries init_state = []" "clock init_state = 0"
    by (simp_all add: trail_init) (simp add: init_state_def)
  note A = notification_starts_extraction [of pixel_interfaces
      "[(''Name'', ''Pixel''), (''Address'', ''AA:BB'')]" env_no_discovery pixel_path init_state]
  note B = notification_starts_extraction [of "[]" "[]" env_no_discovery pixel_path init_state]
  from A h1 have c1: "connected_devices
      (on_device_connected env_no_discovery pixel_path pixel_interfaces init_state) = {pixel_path}"
    and c3: "discoveries (on_device_connected env_no_discovery pixel_path pixel_interfaces init_state)
       = [0]"
    unfolding i by simp_all
  from A h1 have "connected_devices
        (on_device_connected env_no_discovery pixel_path pixel_interfaces
          (on_device_connected env_no_discovery pixel_path pixel_interfaces init_state))
       = connected_devices
          (on_device_connected env_no_discovery pixel_path pixel_interfaces init_state)"
    by blast
  then have c2: "connected_devices
        (on_device_connected env_no_discovery pixel_path pixel_interfaces
          (on_device_connected env_no_discovery pixel_path pixel_interfaces init_state))
       = {pixel_path}"
    unfolding c1 .
  from B h2 have c4: "on_device_connected env_no_discovery pixel_path [] init_state = init_state"
    by blast
  from h1 c1 c2 c3 h2 c4 show ?thesis
    by blast
qed

subsection \<open>Disconnect notifications\<close>




subsection \<open>A failed Apply\<close>

lemma connect_to_wifi_verified:
  "fst (connect_to_wifi env ssid password b) = Inr True
     \<Longrightarrow> associated_any (outcome (env (length (trace b) + 4)))"
  by (auto simp: connect_to_wifi_def split_def Let_def fst_run_None result_of_def
      associated_any_def eval_nat_numeral split: sum.splits if_splits outcome.splits)

text \<open>
  C7. A failed Apply returns a non-success result and leaves the credential store alone.
  When \<open>iwconfig\<close> does not report an association, \<open>connect_to_extracted_network\<close>
  returns False and \<open>connect_to_wifi\<close> does not return True. Whatever
  \<open>connect_to_extracted_network\<close> returns, the credential file holds what it held before;
  \<open>connect_to_wifi\<close> writes the credential file only when it returns True, so a stored
  credential stays stored after a failure.
\<close>

theorem failed_apply_keeps_store:
  "(\<not> associated (outcome (env (length (trace s) + 6)))
      \<longrightarrow> \<not> fst (connect_to_extracted_network env ssid password s))
   \<and> (files s config_file = Some c
      \<longrightarrow> files (snd (connect_to_extracted_network env ssid password s)) config_file = Some c)
   \<and> (\<not> associated_any (outcome (env (length (trace b) + 4)))
      \<longrightarrow> fst (connect_to_wifi env ssid password b) \<noteq> Inr True)
   \<and> (files b config_file = Some c \<and> fst (connect_to_wifi env ssid password b) \<noteq> Inr True
      \<longrightarrow> files (snd (connect_to_wifi env ssid password b)) config_file = Some c)"
  using connect_to_extracted_network_verified [of env ssid password s]
    connect_to_extracted_network_store [of env ssid password s]
    connect_to_wifi_verified [of env ssid password b]
    connect_to_wifi_store [of env ssid password b]
  by auto

theorem failed_apply_keeps_store_witness:
  "\<not> associated (outcome (env_not_associated (length (trace stored_state) + 6)))
   \<and> files stored_state config_file = Some home_credential
   \<and> \<not> fst (connect_to_extracted_network env_not_associated ''HomeNet'' ''s3cr3t'' stored_state)
   \<and> files (snd (connect_to_extracted_network env_not_associated ''HomeNet'' ''s3cr3t''
         stored_state)) config_file = Some home_credential
   \<and> files stored_bt_state config_file = Some home_credential
   \<and> \<not> associated_any (outcome (env_off_any (length (trace stored_bt_state) + 4)))
   \<and> fst (connect_to_wifi env_off_any ''HomeNet'' ''s3cr3t'' stored_bt_state) \<noteq> Inr True
   \<and> files (snd (connect_to_wifi env_off_any ''HomeNet'' ''s3cr3t'' stored_bt_state)) config_file
       = Some home_credential"
proof -
  have h1: "\<not> associated (outcome (env_not_associated (length (trace stored_state) + 6)))"
    by code_simp
  have h2: "files stored_state config_file = Some home_credential"
    by (simp add: stored_state_def)
  have h3: "files stored_bt_state config_file = Some home_credential"
    by (simp add: stored_bt_state_def)
  have h4: "\<not> associated_any (outcome (env_off_any (length (trace stored_bt_state) + 4)))"
    by code_simp
  note A = failed_apply_keeps_store [of env_not_associated stored_state "''HomeNet''" "''s3cr3t''"
        home_credential]
  note B = failed_apply_keeps_store [of env_off_any stored_state "''HomeNet''" "''s3cr3t''"
        home_credential stored_bt_state]
  from B h4 have c1: "fst (connect_to_wifi env_off_any ''HomeNet'' ''s3cr3t'' stored_bt_state)
      \<noteq> Inr True"
    by blast
  from A B h1 h2 h3 h4 c1 show ?thesis
    by blast
qed

end
